theory Spec2Isabelle
  imports Complex_Main
begin

section \<open>Numbers and vectors\<close>

text \<open>
  JavaScript numbers are modelled as real numbers: rounding, NaN and the infinities of
  IEEE doubles are outside the model. \<open>Math.sqrt\<close> is \<^const>\<open>sqrt\<close>, \<open>Math.pow\<close> on a
  real exponent is \<open>powr\<close>, \<open>Math.cos\<close> and \<open>Math.sin\<close> are \<^const>\<open>cos\<close> and \<^const>\<open>sin\<close>.

  \<open>THREE.Vector3\<close> is the library's three-component vector. Its methods mutate the
  receiver and return it; the model returns the new vector, and each place where the
  source mutates a vector that is stored in an object is written out as a state update.
\<close>

datatype Vector3 = Vector3 (vx: real) (vy: real) (vz: real)

definition zero3 :: Vector3 where
  "zero3 = Vector3 0 0 0"

definition add :: "Vector3 \<Rightarrow> Vector3 \<Rightarrow> Vector3" where
  "add a b = Vector3 (vx a + vx b) (vy a + vy b) (vz a + vz b)"

definition subVectors :: "Vector3 \<Rightarrow> Vector3 \<Rightarrow> Vector3" where
  "subVectors a b = Vector3 (vx a - vx b) (vy a - vy b) (vz a - vz b)"

definition multiplyScalar :: "Vector3 \<Rightarrow> real \<Rightarrow> Vector3" where
  "multiplyScalar a s = Vector3 (vx a * s) (vy a * s) (vz a * s)"

definition dot :: "Vector3 \<Rightarrow> Vector3 \<Rightarrow> real" where
  "dot a b = vx a * vx b + vy a * vy b + vz a * vz b"

definition cross :: "Vector3 \<Rightarrow> Vector3 \<Rightarrow> Vector3" where
  "cross a b = Vector3 (vy a * vz b - vz a * vy b)
                       (vz a * vx b - vx a * vz b)
                       (vx a * vy b - vy a * vx b)"

definition length3 :: "Vector3 \<Rightarrow> real" where
  "length3 a = sqrt (vx a * vx a + vy a * vy a + vz a * vz a)"

text \<open>
  \<open>normalize()\<close> is \<open>divideScalar(this.length() || 1)\<close>, and \<open>divideScalar(s)\<close> is
  \<open>multiplyScalar(1 / s)\<close>: the zero vector stays the zero vector.
\<close>

definition normalize :: "Vector3 \<Rightarrow> Vector3" where
  "normalize a = multiplyScalar a (1 / (if length3 a = 0 then 1 else length3 a))"

section \<open>CompanionStar (src/physics/CompanionStar.js, first class)\<close>

text \<open>
  The fields of the class that carry physics. Meshes, shader uniforms and the particle
  pools of the wind and quantum effects only feed rendering and are left out.
\<close>

record CompanionStar =
  blackHoleMass :: real
  mass :: real
  radius :: real
  temperature :: real
  orbitalRadius :: real
  orbitalVelocity :: real
  windVelocity :: real
  windDensity :: real
  enableWind :: bool
  gravitationalStrength :: real
  influenceRadius :: real
  enableGravity :: bool
  hawkingRadiationIntensity :: real
  enableQuantumEffects :: bool
  angle :: real
  inclination :: real
  eccentricity :: real
  position :: Vector3
  velocity :: Vector3

definition calculateHillRadius :: "CompanionStar \<Rightarrow> real" where
  "calculateHillRadius c =
     (let massRatio = mass c / (blackHoleMass c / 1000000000)
      in orbitalRadius c * (massRatio / 3) powr (1 / 3))"

definition calculateOrbitalVelocity :: "CompanionStar \<Rightarrow> real \<Rightarrow> real" where
  "calculateOrbitalVelocity c r = sqrt ((0.1 * blackHoleMass c) / r)"

definition updateOrbitalPosition :: "CompanionStar \<Rightarrow> CompanionStar" where
  "updateOrbitalPosition c =
     c\<lparr>position := Vector3 (cos (angle c) * orbitalRadius c)
                           (sin (inclination c) * orbitalRadius c * sin (angle c))
                           (sin (angle c) * orbitalRadius c * cos (inclination c)),
       velocity := Vector3 (- sin (angle c) * orbitalVelocity c)
                           (cos (inclination c) * orbitalVelocity c * cos (angle c))
                           (cos (angle c) * orbitalVelocity c * cos (inclination c))\<rparr>"

definition calculateGravitationalForce :: "CompanionStar \<Rightarrow> Vector3 \<Rightarrow> Vector3" where
  "calculateGravitationalForce c particlePosition =
     (if \<not> enableGravity c then Vector3 0 0 0
      else
        let toStar = subVectors (position c) particlePosition;
            distance = length3 toStar
        in if distance > influenceRadius c then Vector3 0 0 0
           else
             let forceMagnitude =
                   (mass c * gravitationalStrength c) / (distance * distance + 1)
             in multiplyScalar (normalize toStar) (forceMagnitude * 0.001))"

definition calculateWindForce :: "CompanionStar \<Rightarrow> Vector3 \<Rightarrow> Vector3" where
  "calculateWindForce c particlePosition =
     (if \<not> enableWind c then Vector3 0 0 0
      else
        let fromStar = subVectors particlePosition (position c);
            distance = length3 fromStar;
            windRange = radius c * 2
        in if distance > windRange then Vector3 0 0 0
           else
             let windStrength =
                   (windDensity c * windVelocity c) / (distance * distance + 1)
             in multiplyScalar (normalize fromStar) (windStrength * 0.0001))"

definition getParticleForce :: "CompanionStar \<Rightarrow> Vector3 \<Rightarrow> Vector3" where
  "getParticleForce c particlePosition =
     add (calculateGravitationalForce c particlePosition)
         (calculateWindForce c particlePosition)"

text \<open>
  The argument of \<open>setParameters\<close> is an object whose keys may be absent
  (\<open>params.k !== undefined\<close>): a record of options. Keys the method does not read
  have no effect and are not part of the record.
\<close>

record CompanionParams =
  p_mass :: "real option"
  p_temperature :: "real option"
  p_orbitalRadius :: "real option"
  p_orbitalVelocity :: "real option"
  p_windVelocity :: "real option"
  p_windDensity :: "real option"
  p_gravitationalStrength :: "real option"
  p_hawkingRadiationIntensity :: "real option"
  p_enableWind :: "bool option"
  p_enableGravity :: "bool option"
  p_enableQuantumEffects :: "bool option"

definition noParams :: CompanionParams where
  "noParams = \<lparr>p_mass = None, p_temperature = None, p_orbitalRadius = None,
     p_orbitalVelocity = None, p_windVelocity = None, p_windDensity = None,
     p_gravitationalStrength = None, p_hawkingRadiationIntensity = None,
     p_enableWind = None, p_enableGravity = None, p_enableQuantumEffects = None\<rparr>"

definition setMass :: "real option \<Rightarrow> CompanionStar \<Rightarrow> CompanionStar" where
  "setMass v c = (case v of None \<Rightarrow> c
     | Some m \<Rightarrow> (let c1 = c\<lparr>mass := m\<rparr> in c1\<lparr>influenceRadius := calculateHillRadius c1\<rparr>))"

definition setOrbitalRadius :: "real option \<Rightarrow> CompanionStar \<Rightarrow> CompanionStar" where
  "setOrbitalRadius v c = (case v of None \<Rightarrow> c
     | Some r \<Rightarrow>
        (let c1 = c\<lparr>orbitalRadius := r\<rparr>;
             c2 = c1\<lparr>orbitalVelocity := calculateOrbitalVelocity c1 (orbitalRadius c1)\<rparr>;
             c3 = c2\<lparr>influenceRadius := calculateHillRadius c2\<rparr>
         in updateOrbitalPosition c3))"

definition setField :: "'a option \<Rightarrow> ('a \<Rightarrow> CompanionStar \<Rightarrow> CompanionStar) \<Rightarrow>
    CompanionStar \<Rightarrow> CompanionStar" where
  "setField v upd c = (case v of None \<Rightarrow> c | Some x \<Rightarrow> upd x c)"

definition setParameters :: "CompanionParams \<Rightarrow> CompanionStar \<Rightarrow> CompanionStar" where
  "setParameters params c =
     (let c1 = setMass (p_mass params) c;
          c2 = setField (p_temperature params) (\<lambda>x s. s\<lparr>temperature := x\<rparr>) c1;
          c3 = setOrbitalRadius (p_orbitalRadius params) c2;
          c4 = setField (p_orbitalVelocity params) (\<lambda>x s. s\<lparr>orbitalVelocity := x\<rparr>) c3;
          c5 = setField (p_windVelocity params) (\<lambda>x s. s\<lparr>windVelocity := x\<rparr>) c4;
          c6 = setField (p_windDensity params) (\<lambda>x s. s\<lparr>windDensity := x\<rparr>) c5;
          c7 = setField (p_gravitationalStrength params)
                 (\<lambda>x s. s\<lparr>gravitationalStrength := x\<rparr>) c6;
          c8 = setField (p_hawkingRadiationIntensity params)
                 (\<lambda>x s. s\<lparr>hawkingRadiationIntensity := x\<rparr>) c7;
          c9 = setField (p_enableWind params) (\<lambda>x s. s\<lparr>enableWind := x\<rparr>) c8;
          c10 = setField (p_enableGravity params) (\<lambda>x s. s\<lparr>enableGravity := x\<rparr>) c9
      in setField (p_enableQuantumEffects params) (\<lambda>x s. s\<lparr>enableQuantumEffects := x\<rparr>) c10)"

text \<open>A companion with the constructor's default parameters, at orbital angle 0.\<close>

definition defaultCompanion :: CompanionStar where
  "defaultCompanion =
     \<lparr>blackHoleMass = 66000000000, mass = 40, radius = 15, temperature = 40000,
      orbitalRadius = 250, orbitalVelocity = sqrt ((0.1 * 66000000000) / 250),
      windVelocity = 2000, windDensity = 1, enableWind = True,
      gravitationalStrength = 1,
      influenceRadius = 250 * ((40 / (66000000000 / 1000000000)) / 3) powr (1 / 3),
      enableGravity = True, hawkingRadiationIntensity = 0.5,
      enableQuantumEffects = True, angle = 0, inclination = 0, eccentricity = 0,
      position = Vector3 250 0 0,
      velocity = Vector3 0 (sqrt ((0.1 * 66000000000) / 250)) (sqrt ((0.1 * 66000000000) / 250))\<rparr>"

section \<open>OrbitalMechanics (src/unnamed/part_004)\<close>

text \<open>The method reads one field of its object, \<open>this.blackHoleMass\<close>, passed first.\<close>

definition calculateHillSphere :: "real \<Rightarrow> real \<Rightarrow> real \<Rightarrow> real" where
  "calculateHillSphere om_blackHoleMass bodyMass orbRadius =
     orbRadius * (bodyMass / (3 * om_blackHoleMass)) powr (1 / 3)"

text \<open>The default companion with its gravity switched off from the control panel.\<close>

definition quietCompanion :: CompanionStar where
  "quietCompanion = defaultCompanion\<lparr>enableGravity := False\<rparr>"

text \<open>
  Parameter objects: \<open>{mass: -1}\<close>; \<open>{mass: 90, orbitalRadius: 100}\<close>; and
  \<open>{orbitalVelocity: 5, enableGravity: false}\<close>.
\<close>

definition negativeMassParams :: CompanionParams where
  "negativeMassParams = noParams\<lparr>p_mass := Some (- 1)\<rparr>"

definition closerHeavierParams :: CompanionParams where
  "closerHeavierParams = noParams\<lparr>p_mass := Some 90, p_orbitalRadius := Some 100\<rparr>"

definition switchParams :: CompanionParams where
  "switchParams = noParams\<lparr>p_orbitalVelocity := Some 5, p_enableGravity := Some False\<rparr>"

section \<open>Star (src/physics/Star.js)\<close>

text \<open>
  The infalling star. Field names that the companion's record already uses carry the
  prefix \<open>star_\<close>. \<open>hasMesh\<close> stands for \<open>this.mesh\<close> being set, which \<open>update\<close> tests first.
  The file holds two versions of the class; they differ in rendering and in two constants
  of \<open>update\<close> (stretch gain 3 and health loss 0.01 in the first, 4 and 0.015 in the
  second), so \<open>update\<close> is written once over the two constants.
\<close>

record Star =
  star_blackHoleMass :: real
  star_mass :: real
  star_radius :: real
  star_position :: Vector3
  star_velocity :: Vector3
  isDisrupted :: bool
  tidalRadius :: real
  stretchFactor :: Vector3
  health :: real
  hasMesh :: bool

definition calculateTidalRadius :: "Star \<Rightarrow> real" where
  "calculateTidalRadius s =
     (let schwarzschildRadius = 13;
          tr = schwarzschildRadius * 3 * (star_blackHoleMass s / star_mass s) powr (1 / 3)
      in min tr 80)"

definition calculateTidalForce :: "Star \<Rightarrow> real \<Rightarrow> real" where
  "calculateTidalForce s distance =
     (let d = (if distance < 0.1 then 0.1 else distance)
      in (2 * 1 * star_blackHoleMass s * star_radius s) / (d * d * d))"

definition calculateGravity :: "Star \<Rightarrow> real \<Rightarrow> real" where
  "calculateGravity s distance =
     (let d = (if distance < 0.1 then 0.1 else distance)
      in (0.1 * star_blackHoleMass s) / (d * d))"

text \<open>The constructor: \<open>new Star(scene, blackHoleMass)\<close>.\<close>

definition newStar :: "real \<Rightarrow> Star" where
  "newStar bh =
     (let s0 = \<lparr>star_blackHoleMass = bh, star_mass = 1, star_radius = 1,
                star_position = Vector3 300 0 0, star_velocity = Vector3 (- 0.5) 0 0.3,
                isDisrupted = False, tidalRadius = 0, stretchFactor = Vector3 1 1 1,
                health = 1, hasMesh = True\<rparr>
      in s0\<lparr>tidalRadius := calculateTidalRadius s0\<rparr>)"

definition updateWith :: "real \<Rightarrow> real \<Rightarrow> Star \<Rightarrow> real \<Rightarrow> Star" where
  "updateWith stretchGain healthLoss s deltaTime =
     (if \<not> hasMesh s then s
      else
        let distance = length3 (star_position s);
            gravity = calculateGravity s distance;
            direction = multiplyScalar (normalize (star_position s)) (- 1);
            acceleration = multiplyScalar direction gravity;
            v1 = add (star_velocity s) (multiplyScalar acceleration deltaTime);
            p1 = add (star_position s) (multiplyScalar v1 deltaTime);
            s1 = s\<lparr>star_velocity := v1, star_position := p1\<rparr>
        in if distance < tidalRadius s \<and> \<not> isDisrupted s then
             let stretchAmount = max 0 (1 - distance / tidalRadius s);
                 s2 = s1\<lparr>stretchFactor :=
                         Vector3 (1 + stretchAmount * stretchGain)
                                 (1 / sqrt (1 + stretchAmount * stretchGain))
                                 (1 / sqrt (1 + stretchAmount * stretchGain))\<rparr>;
                 s3 = s2\<lparr>health := health s2 - stretchAmount * healthLoss\<rparr>
             in if health s3 < 0.3 then s3\<lparr>isDisrupted := True\<rparr> else s3
           else s1)"

definition update :: "Star \<Rightarrow> real \<Rightarrow> Star" where
  "update = updateWith 3 0.01"

definition update2 :: "Star \<Rightarrow> real \<Rightarrow> Star" where
  "update2 = updateWith 4 0.015"

text \<open>A sequence of ticks, one \<open>deltaTime\<close> per tick.\<close>

fun updates :: "Star \<Rightarrow> real list \<Rightarrow> Star" where
  "updates s [] = s"
| "updates s (dt # dts) = updates (update s dt) dts"

text \<open>A star that has fallen to distance 40, inside its tidal radius of 80, with its
  integrity worn down to the threshold.\<close>

definition strainedStar :: Star where
  "strainedStar = (newStar 66000000000)\<lparr>star_position := Vector3 40 0 0, health := 0.3\<rparr>"

section \<open>StellarDebris (src/unnamed/part_005)\<close>

text \<open>
  A debris particle as \<open>generateDebrisFromStar\<close> pushes it, and the fields of the debris
  system that the physics reads. \<open>particleCount\<close> is a counter the class keeps beside
  \<open>particles.length\<close>; it is the one that the capacity test reads. Field and method names
  that are already taken carry the prefix \<open>d_\<close> (particle) or \<open>sd_\<close> (system).
\<close>

record DebrisParticle =
  d_position :: Vector3
  d_velocity :: Vector3
  angularMomentum :: Vector3
  d_temperature :: real
  age :: real
  maxAge :: real
  d_mass :: real
  inStream :: bool
  circularized :: bool

record StellarDebris =
  sd_blackHoleMass :: real
  particles :: "DebrisParticle list"
  particleCount :: int
  maxParticles :: int
  ISCO :: real
  eventHorizon :: real

text \<open>The constructor: \<open>new StellarDebris(scene, blackHoleMass)\<close>.\<close>

definition newStellarDebris :: "real \<Rightarrow> StellarDebris" where
  "newStellarDebris bh =
     \<lparr>sd_blackHoleMass = bh, particles = [], particleCount = 0, maxParticles = 5000,
      ISCO = 18, eventHorizon = 13\<rparr>"

text \<open>What \<open>Star.getState()\<close> hands over, as far as the debris generator reads it.\<close>

record StarState =
  ss_position :: Vector3
  ss_velocity :: Vector3
  ss_mass :: real

text \<open>
  \<open>Math.random()\<close> is a stream of numbers \<open>rnd 0, rnd 1, ...\<close> and a cursor \<open>k\<close> into it;
  every function that draws returns the advanced cursor. One debris particle draws eight
  numbers, in the order of the source.
\<close>

definition makeDebris :: "StarState \<Rightarrow> (nat \<Rightarrow> real) \<Rightarrow> nat \<Rightarrow> DebrisParticle" where
  "makeDebris starState rnd k =
     (let debrisCount = 200;
          spreadFactor = (rnd k - 0.5) * 10;
          perpVector = normalize (Vector3 (rnd (k + 1) - 0.5) (rnd (k + 2) - 0.5) (rnd (k + 3) - 0.5));
          particlePos = add (ss_position starState) (multiplyScalar perpVector spreadFactor);
          velocitySpread = Vector3 ((rnd (k + 4) - 0.5) * 0.2) ((rnd (k + 5) - 0.5) * 0.2)
                                   ((rnd (k + 6) - 0.5) * 0.2);
          particleVel = add (ss_velocity starState) velocitySpread
      in \<lparr>d_position = particlePos, d_velocity = particleVel,
          angularMomentum = cross particlePos particleVel,
          d_temperature = 0.3, age = 0, maxAge = 1000 + rnd (k + 7) * 500,
          d_mass = ss_mass starState / debrisCount,
          inStream = True, circularized = False\<rparr>)"

text \<open>
  The \<open>for\<close> loop of \<open>generateDebrisFromStar\<close>; the first argument counts the iterations
  that are left. The \<open>break\<close> at the capacity test ends the loop.
\<close>

fun generateLoop :: "nat \<Rightarrow> StarState \<Rightarrow> (nat \<Rightarrow> real) \<Rightarrow> nat \<Rightarrow> StellarDebris \<Rightarrow>
    StellarDebris \<times> nat" where
  "generateLoop 0 starState rnd k sd = (sd, k)"
| "generateLoop (Suc n) starState rnd k sd =
     (if particleCount sd \<ge> maxParticles sd then (sd, k)
      else generateLoop n starState rnd (k + 8)
             (sd\<lparr>particles := particles sd @ [makeDebris starState rnd k],
                particleCount := particleCount sd + 1\<rparr>))"

definition generateDebrisFromStar :: "StarState \<Rightarrow> (nat \<Rightarrow> real) \<Rightarrow> nat \<Rightarrow> StellarDebris \<Rightarrow>
    StellarDebris \<times> nat" where
  "generateDebrisFromStar starState rnd k sd = generateLoop 200 starState rnd k sd"

definition sd_calculateOrbitalVelocity :: "StellarDebris \<Rightarrow> real \<Rightarrow> real" where
  "sd_calculateOrbitalVelocity sd r =
     (let r1 = (if r < ISCO sd then ISCO sd else r)
      in sqrt ((0.1 * sd_blackHoleMass sd) / r1))"

text \<open>
  The body of the loop of \<open>update\<close> for one particle, block by block. None is the
  particle being spliced out of the array.

  The circularization block (\<open>if (p.inStream && !p.circularized)\<close>): the test calls
  \<open>p.position.normalize()\<close>, which normalizes the stored position in place, so the block
  starts by overwriting the position; \<open>distance\<close> was read before.
\<close>

definition circularizationBlock :: "StellarDebris \<Rightarrow> real \<Rightarrow> DebrisParticle \<Rightarrow> DebrisParticle" where
  "circularizationBlock sd distance p =
     (if inStream p \<and> \<not> circularized p then
        let p1 = p\<lparr>d_position := normalize (d_position p)\<rparr>;
            radialVelocity = dot (d_velocity p1) (d_position p1)
        in if \<bar>radialVelocity\<bar> < 0.1 \<and> distance > ISCO sd * 1.5 then
             let orbitalSpeed = sd_calculateOrbitalVelocity sd distance;
                 tangent = normalize (cross (angularMomentum p1) (d_position p1))
             in p1\<lparr>circularized := True, inStream := False,
                   d_velocity := multiplyScalar tangent orbitalSpeed\<rparr>
           else p1
      else p)"

text \<open>The viscous block (\<open>if (p.circularized)\<close>), which runs right after.\<close>

definition viscousBlock :: "StellarDebris \<Rightarrow> DebrisParticle \<Rightarrow> DebrisParticle" where
  "viscousBlock sd p =
     (if circularized p then
        let angMomLoss = 0.0001;
            p1 = p\<lparr>angularMomentum := multiplyScalar (angularMomentum p) (1 - angMomLoss)\<rparr>;
            currentRadius = length3 (d_position p1);
            newOrbitalSpeed = sd_calculateOrbitalVelocity sd currentRadius;
            tangent = normalize (cross (angularMomentum p1) (d_position p1))
        in p1\<lparr>d_velocity := multiplyScalar tangent newOrbitalSpeed\<rparr>
      else p)"

definition integrateBlock :: "StellarDebris \<Rightarrow> real \<Rightarrow> Vector3 \<Rightarrow> real \<Rightarrow> DebrisParticle \<Rightarrow>
    DebrisParticle" where
  "integrateBlock sd distance gravAccel deltaTime p =
     (let v1 = add (d_velocity p) (multiplyScalar gravAccel deltaTime);
          x1 = add (d_position p) (multiplyScalar v1 deltaTime);
          tempFactor = max 0 (1 - (distance - ISCO sd) / 100);
          t1 = 0.3 + tempFactor * 1.2;
          t2 = (if \<not> circularized p \<and> inStream p then t1 + 0.3 else t1)
      in p\<lparr>d_velocity := v1, d_position := x1, d_temperature := t2\<rparr>)"

definition updateParticle :: "StellarDebris \<Rightarrow> real \<Rightarrow> DebrisParticle \<Rightarrow> DebrisParticle option" where
  "updateParticle sd deltaTime p0 =
     (let p = p0\<lparr>age := age p0 + 1\<rparr>
      in if age p > maxAge p then None
         else
           let distance = length3 (d_position p)
           in if distance < eventHorizon sd then None
              else
                let gravity = (0.1 * sd_blackHoleMass sd) / (distance * distance);
                    gravDirection = multiplyScalar (normalize (d_position p)) (- 1);
                    gravAccel = multiplyScalar gravDirection gravity
                in Some (integrateBlock sd distance gravAccel deltaTime
                           (viscousBlock sd (circularizationBlock sd distance p))))"

text \<open>
  The loop of \<open>update\<close> runs from the last index down to 0 and splices removed particles
  out; the first argument is the number of indices still to visit, so the particle in
  hand is at index \<open>i\<close>, which is in range because only indices above it were removed.
\<close>

fun updateLoop :: "nat \<Rightarrow> real \<Rightarrow> StellarDebris \<Rightarrow> StellarDebris" where
  "updateLoop 0 deltaTime sd = sd"
| "updateLoop (Suc i) deltaTime sd =
     (case updateParticle sd deltaTime (particles sd ! i) of
        None \<Rightarrow>
          updateLoop i deltaTime
            (sd\<lparr>particles := take i (particles sd) @ drop (Suc i) (particles sd),
               particleCount := particleCount sd - 1\<rparr>)
      | Some p' \<Rightarrow>
          updateLoop i deltaTime (sd\<lparr>particles := (particles sd)[i := p']\<rparr>))"

definition sd_update :: "StellarDebris \<Rightarrow> real \<Rightarrow> StellarDebris" where
  "sd_update sd deltaTime = updateLoop (length (particles sd)) deltaTime sd"

text \<open>The life of one particle over a sequence of ticks; None once it has been removed.\<close>

fun particleTicks :: "StellarDebris \<Rightarrow> real list \<Rightarrow> DebrisParticle \<Rightarrow> DebrisParticle option" where
  "particleTicks sd [] p = Some p"
| "particleTicks sd (dt # dts) p =
     (case updateParticle sd dt p of None \<Rightarrow> None | Some p' \<Rightarrow> particleTicks sd dts p')"

text \<open>
  Concrete inputs: a star state as the disrupted star reports it, a random stream, a stream
  particle at distance 72 moving tangentially, and a debris system whose queue is at the
  cap of 5000.
\<close>

definition exampleStarState :: StarState where
  "exampleStarState = \<lparr>ss_position = Vector3 40 0 0, ss_velocity = Vector3 (- 0.5) 0 0.3,
     ss_mass = 1\<rparr>"

definition halfStream :: "nat \<Rightarrow> real" where
  "halfStream n = 0.5"

definition streamParticle :: DebrisParticle where
  "streamParticle =
     \<lparr>d_position = Vector3 72 0 0, d_velocity = Vector3 0 0 1,
      angularMomentum = cross (Vector3 72 0 0) (Vector3 0 0 1),
      d_temperature = 0.3, age = 0, maxAge = 1000, d_mass = 1 / 200,
      inStream = True, circularized = False\<rparr>"

definition fullDebris :: StellarDebris where
  "fullDebris = (newStellarDebris 66000000000)
     \<lparr>particles := replicate 5000 streamParticle, particleCount := 5000\<rparr>"

definition defaultDebris :: StellarDebris where
  "defaultDebris = newStellarDebris 66000000000"

section \<open>The accretion disk (src/components/Simulation1.jsx)\<close>

text \<open>
  The simulation parameters that the disk update reads (\<open>params\<close> of the component); the
  black-hole mass of the component is in its own units (66), hence the prefix.
\<close>

record SimParams =
  prm_blackHoleMass :: real
  spinParameter :: real
  diskRotationSpeed :: real
  magneticFieldStrength :: real
  showFrameDragging :: bool
  showParticleTrails :: bool
  jetLaunchRate :: real
  spiralStrength :: real
  showCompanionStar :: bool

definition defaultParams :: SimParams where
  "defaultParams = \<lparr>prm_blackHoleMass = 66, spinParameter = 0.7, diskRotationSpeed = 1,
     magneticFieldStrength = 1, showFrameDragging = True, showParticleTrails = True,
     jetLaunchRate = 1, spiralStrength = 1, showCompanionStar = True\<rparr>"

definition getSchwarzschildRadius :: "real \<Rightarrow> real" where
  "getSchwarzschildRadius m = m / 66 * 10"

definition getISCO :: "real \<Rightarrow> real \<Rightarrow> real" where
  "getISCO m spin = (let rs = getSchwarzschildRadius m; iscoFactor = 6 - 5 * spin
                     in rs * iscoFactor / 6)"

definition getBlandfordZnajekPower :: "SimParams \<Rightarrow> real \<Rightarrow> real \<Rightarrow> real \<Rightarrow> real" where
  "getBlandfordZnajekPower prm r spin bField =
     (let rs = getSchwarzschildRadius (prm_blackHoleMass prm);
          horizonFactor = exp (- (r - rs) / rs)
      in spin * spin * bField * horizonFactor)"

definition getFrameDraggingRate :: "SimParams \<Rightarrow> real \<Rightarrow> real \<Rightarrow> real" where
  "getFrameDraggingRate prm r spin =
     (let rs = getSchwarzschildRadius (prm_blackHoleMass prm); a = spin
      in (2 * a * rs * rs * rs) / (r * r * r) * 0.01)"

definition getLorentzFactor :: "real \<Rightarrow> real" where
  "getLorentzFactor e = 1 + e * 10"

text \<open>
  A disk particle, with the fields of the object pushed onto \<open>diskData\<close>; field names
  that are already taken carry the prefix \<open>dp_\<close>.
\<close>

record DiskParticle =
  dp_angle :: real
  dp_radius :: real
  initialRadius :: real
  dp_height :: real
  baseHeight :: real
  orbitalPlaneAngle :: real
  frameDragAccumulated :: real
  speed :: real
  baseSpeed :: real
  verticalPhase :: real
  infallSpeed :: real
  vRadial :: real
  vTangential :: real
  vVertical :: real
  temp :: real
  baseTemp :: real
  heatFromViscosity :: real
  density :: real
  particleSize :: real
  dp_mass :: real
  magneticFieldLine :: int
  isInISCO :: bool
  timeInISCO :: real

text \<open>
  Seeding one particle (the body of the loop that fills \<open>diskData\<close>): eight random draws,
  in the order of the source.
\<close>

definition seedParticle :: "int \<Rightarrow> (nat \<Rightarrow> real) \<Rightarrow> nat \<Rightarrow> DiskParticle" where
  "seedParticle numFieldLines rnd k =
     (let a = rnd k * pi * 2;
          radiusRandom = rnd (k + 1);
          r = 18 + radiusRandom powr 1.5 * 80;
          aspectRatio = 0.1 * (r / 50) powr 0.5;
          diskThickness = r * aspectRatio;
          heightRandom = (rnd (k + 2) + rnd (k + 3) + rnd (k + 4)) / 3 - 0.5;
          h = heightRandom * diskThickness;
          keplerianSpeed = 0.007 * (98 / r) powr 1.5;
          t = (1 - (r - 18) / 80) powr 0.75;
          dens = exp (- \<bar>h\<bar> / diskThickness) * (50 / r) powr 1.5;
          particleMass = 0.7 + dens * 0.5 + rnd (k + 5) * 0.3
      in \<lparr>dp_angle = a, dp_radius = r, initialRadius = r, dp_height = h, baseHeight = h,
          orbitalPlaneAngle = 0, frameDragAccumulated = 0,
          speed = keplerianSpeed, baseSpeed = keplerianSpeed,
          verticalPhase = rnd (k + 6) * pi * 2, infallSpeed = 0.012 * (1 / r),
          vRadial = 0, vTangential = 0, vVertical = 0,
          temp = t, baseTemp = t, heatFromViscosity = 0,
          density = dens, particleSize = 0.35 + dens * 0.3, dp_mass = particleMass,
          magneticFieldLine = \<lfloor>rnd (k + 7) * real_of_int numFieldLines\<rfloor>,
          isInISCO = False, timeInISCO = 0\<rparr>)"

text \<open>A launched (jet) particle; a trail is represented by the particle it follows.\<close>

record LaunchedParticle =
  lp_position :: Vector3
  lp_magneticFieldLine :: int
  fieldProgress :: real
  lorentzFactor :: real
  energy :: real
  lp_age :: real
  lp_maxAge :: real
  isUpper :: bool

text \<open>
  What the disk update reads but does not change: the parameters, the companion
  (\<open>companionStarRef.current\<close>, which may be null), the ISCO radius passed in, and the
  stream behind \<open>Math.random()\<close>. What it changes beside the particles: the two arrays it
  pushes to, the launch counter, and the cursor into the random stream.
\<close>

record DiskEnv =
  env_params :: SimParams
  env_companion :: "CompanionStar option"
  iscoRadius :: real
  env_random :: "nat \<Rightarrow> real"

record DiskWorld =
  launchedParticles :: "LaunchedParticle list"
  particleTrails :: "LaunchedParticle list"
  launchesThisFrame :: nat
  cursor :: nat

text \<open>\<open>THREE.Vector2\<close> as a pair; \<open>normalize\<close> again divides by \<open>length() || 1\<close>.\<close>

definition normalize2 :: "real \<times> real \<Rightarrow> real \<times> real" where
  "normalize2 v =
     (let l = sqrt (fst v * fst v + snd v * snd v); s = (if l = 0 then 1 else l)
      in (fst v * (1 / s), snd v * (1 / s)))"

definition dot2 :: "real \<times> real \<Rightarrow> real \<times> real \<Rightarrow> real" where
  "dot2 a b = fst a * fst b + snd a * snd b"

text \<open>
  The companion's force on a particle in the particle's cylindrical frame:
  (radial, tangential, vertical). Both loops of the update compute it the same way.
\<close>

definition companionForce :: "DiskEnv \<Rightarrow> DiskParticle \<Rightarrow> real \<times> real \<times> real" where
  "companionForce env p =
     (case (if showCompanionStar (env_params env) then env_companion env else None) of
        None \<Rightarrow> (0, 0, 0)
      | Some c \<Rightarrow>
          let particlePos = Vector3 (cos (dp_angle p) * dp_radius p) (dp_height p)
                                    (sin (dp_angle p) * dp_radius p);
              force = getParticleForce c particlePos
          in if length3 force > 0 then
               let toParticle = (vx particlePos, vz particlePos);
                   radialDir = normalize2 toParticle;
                   tangentialDir = (- snd radialDir, fst radialDir);
                   forceXZ = (vx force, vz force)
               in (dot2 forceXZ radialDir, dot2 forceXZ tangentialDir, vy force)
             else (0, 0, 0))"

definition baseRadialAccel :: "DiskEnv \<Rightarrow> DiskParticle \<Rightarrow> real" where
  "baseRadialAccel env p = - infallSpeed p * spiralStrength (env_params env) * 0.018 * 60"

definition accelMagnitude :: "DiskEnv \<Rightarrow> DiskParticle \<Rightarrow> real" where
  "accelMagnitude env p =
     (case companionForce env p of (radialForce, tangentialForce, verticalForce) \<Rightarrow>
        let totalRadialAccel = \<bar>(baseRadialAccel env p + radialForce * 30) / dp_mass p\<bar>;
            totalTangentialAccel = \<bar>(tangentialForce * 1.2) / dp_mass p\<bar>;
            totalVerticalAccel = \<bar>(verticalForce * 18) / dp_mass p\<bar>
        in sqrt (totalRadialAccel * totalRadialAccel
                 + totalTangentialAccel * totalTangentialAccel
                 + totalVerticalAccel * totalVerticalAccel))"

text \<open>The first loop: the running maximum, started at 0.\<close>

fun maxAccelLoop :: "DiskEnv \<Rightarrow> DiskParticle list \<Rightarrow> real \<Rightarrow> real" where
  "maxAccelLoop env [] maxAccelMagnitude = maxAccelMagnitude"
| "maxAccelLoop env (p # ps) maxAccelMagnitude =
     maxAccelLoop env ps (max maxAccelMagnitude (accelMagnitude env p))"

definition adaptiveTimestep :: "real \<Rightarrow> real" where
  "adaptiveTimestep maxAccelMagnitude =
     (let baseTimestep = 0.016; courantFactor = 0.3; characteristicLength = 1
      in if maxAccelMagnitude > 0.1 then
           let safeDt = courantFactor * sqrt (characteristicLength / maxAccelMagnitude)
           in min baseTimestep (max safeDt 0.001)
         else baseTimestep)"

text \<open>
  The second loop, for one particle. First the velocities, the positions, the height
  clamp and the frame-dragging angles.
\<close>

definition integrateMotion :: "DiskEnv \<Rightarrow> real \<Rightarrow> DiskParticle \<Rightarrow> DiskParticle" where
  "integrateMotion env adaptiveDt p =
     (case companionForce env p of (radialForce, tangentialForce, verticalForce) \<Rightarrow>
        let prm = env_params env;
            baseTangentialVel = speed p * diskRotationSpeed prm * 60;
            baseVerticalAccel = 0;
            totalRadialAccel = (baseRadialAccel env p + radialForce * 30) / dp_mass p;
            totalTangentialAccel = (tangentialForce * 1.2) / dp_mass p;
            totalVerticalAccel = (baseVerticalAccel + verticalForce * 18) / dp_mass p;
            vr = (vRadial p + totalRadialAccel * adaptiveDt) * 0.95;
            vt = baseTangentialVel + totalTangentialAccel;
            vv = (vVertical p + totalVerticalAccel * adaptiveDt) * 0.90;
            r = dp_radius p + vr * adaptiveDt;
            a = dp_angle p + (vt / (r + 1)) * adaptiveDt;
            h = max (- 15) (min 15 (dp_height p + vv * adaptiveDt));
            frameDragRate = getFrameDraggingRate prm r (spinParameter prm);
            drag = frameDragRate * (if showFrameDragging prm then 1 else 0)
        in p\<lparr>vRadial := vr, vTangential := vt, vVertical := vv,
             dp_radius := r, dp_angle := a, dp_height := h,
             orbitalPlaneAngle := orbitalPlaneAngle p + drag,
             frameDragAccumulated := frameDragAccumulated p + drag\<rparr>)"

definition draggedHeight :: "DiskParticle \<Rightarrow> real" where
  "draggedHeight p =
     (let precessionTilt = sin (frameDragAccumulated p) * 0.3
      in dp_height p * cos (orbitalPlaneAngle p)
         + dp_radius p * precessionTilt * sin (orbitalPlaneAngle p))"

text \<open>The ISCO band: heating, the launch draw, the launch and the reset after it.\<close>

definition pushTrail :: "LaunchedParticle \<Rightarrow> LaunchedParticle list \<Rightarrow> LaunchedParticle list" where
  "pushTrail lp trails =
     (let ts = trails @ [lp] in if length ts > 500 then tl ts else ts)"

definition iscoRegion :: "DiskEnv \<Rightarrow> real \<Rightarrow> DiskParticle \<Rightarrow> DiskWorld \<Rightarrow>
    DiskParticle \<times> DiskWorld" where
  "iscoRegion env dragged p0 w =
     (let prm = env_params env; rnd = env_random env;
          p = p0\<lparr>isInISCO := (dp_radius p0 \<ge> iscoRadius env - 3
                                \<and> dp_radius p0 \<le> iscoRadius env + 3)\<rparr>
      in if isInISCO p then
           let p1 = p\<lparr>timeInISCO := timeInISCO p + 1\<rparr>;
               p2 = p1\<lparr>heatFromViscosity := min 1 (timeInISCO p1 / 50)\<rparr>;
               launchProbability = 0.015 * jetLaunchRate prm * (1 + heatFromViscosity p2)
           in if rnd (cursor w) < launchProbability then
                let bzPower = getBlandfordZnajekPower prm (dp_radius p2) (spinParameter prm)
                                (magneticFieldStrength prm);
                    launchParticle =
                      \<lparr>lp_position = Vector3 (cos (dp_angle p2) * dp_radius p2) dragged
                                              (sin (dp_angle p2) * dp_radius p2),
                       lp_magneticFieldLine = magneticFieldLine p2, fieldProgress = 0,
                       lorentzFactor = getLorentzFactor bzPower, energy = bzPower,
                       lp_age = 0, lp_maxAge = 250,
                       isUpper = (rnd (cursor w + 1) < 0.5)\<rparr>;
                    w1 = w\<lparr>launchedParticles := launchedParticles w @ [launchParticle],
                           launchesThisFrame := launchesThisFrame w + 1,
                           particleTrails :=
                             (if showParticleTrails prm
                              then pushTrail launchParticle (particleTrails w)
                              else particleTrails w),
                           cursor := cursor w + 3\<rparr>
                in (p2\<lparr>dp_radius := initialRadius p2,
                       dp_angle := rnd (cursor w + 2) * pi * 2,
                       timeInISCO := 0, heatFromViscosity := 0\<rparr>, w1)
              else (p2, w\<lparr>cursor := cursor w + 1\<rparr>)
         else (p\<lparr>timeInISCO := 0, heatFromViscosity := 0\<rparr>, w))"

text \<open>The fall into the black hole: the reset below \<open>iscoRadius - 3\<close>.\<close>

definition fallIntoBlackHole :: "DiskEnv \<Rightarrow> DiskParticle \<Rightarrow> DiskWorld \<Rightarrow>
    DiskParticle \<times> DiskWorld" where
  "fallIntoBlackHole env p w =
     (if dp_radius p < iscoRadius env - 3 then
        (p\<lparr>dp_radius := initialRadius p,
           dp_angle := env_random env (cursor w) * pi * 2,
           frameDragAccumulated := 0\<rparr>,
         w\<lparr>cursor := cursor w + 1\<rparr>)
      else (p, w))"

definition integrateParticle :: "DiskEnv \<Rightarrow> real \<Rightarrow> DiskParticle \<Rightarrow> DiskWorld \<Rightarrow>
    DiskParticle \<times> DiskWorld" where
  "integrateParticle env adaptiveDt p w =
     (let p1 = integrateMotion env adaptiveDt p;
          (p2, w2) = iscoRegion env (draggedHeight p1) p1 w;
          (p3, w3) = fallIntoBlackHole env p2 w2
      in (p3\<lparr>verticalPhase := verticalPhase p3 + 0.018\<rparr>, w3))"

text \<open>
  The second loop over the array. The objects are updated in place and the array is
  never resized, so the loop maps over the list, threading the world through.
\<close>

fun integrateLoop :: "DiskEnv \<Rightarrow> real \<Rightarrow> DiskParticle list \<Rightarrow> DiskWorld \<Rightarrow>
    DiskParticle list \<times> DiskWorld" where
  "integrateLoop env adaptiveDt [] w = ([], w)"
| "integrateLoop env adaptiveDt (p # ps) w =
     (let (p', w1) = integrateParticle env adaptiveDt p w;
          (ps', w2) = integrateLoop env adaptiveDt ps w1
      in (p' # ps', w2))"

definition updateDiskParticles :: "DiskEnv \<Rightarrow> DiskParticle list \<Rightarrow> DiskWorld \<Rightarrow>
    DiskParticle list \<times> DiskWorld" where
  "updateDiskParticles env diskData w =
     (let w0 = w\<lparr>launchesThisFrame := 0\<rparr>;
          maxAccelMagnitude = maxAccelLoop env diskData 0;
          adaptiveDt = adaptiveTimestep maxAccelMagnitude
      in integrateLoop env adaptiveDt diskData w0)"

text \<open>
  Concrete inputs. A particle as seeded at radius 80 in the disk plane; the same particle
  after it has drifted in to radius 1; a particle under a violent inward pull; an empty
  world; an environment with the companion hidden; and an environment whose companion
  (mass 90, orbital radius 100, both within the control panel's ranges) trails the
  particle on its orbit, at orbital angle \<open>- arctan (3/4)\<close>.
\<close>

definition outerParticle :: DiskParticle where
  "outerParticle =
     \<lparr>dp_angle = 0, dp_radius = 80, initialRadius = 80, dp_height = 0, baseHeight = 0,
      orbitalPlaneAngle = 0, frameDragAccumulated = 0,
      speed = 0.007 * (98 / 80) powr 1.5, baseSpeed = 0.007 * (98 / 80) powr 1.5,
      verticalPhase = 0, infallSpeed = 0.012 * (1 / 80),
      vRadial = 0, vTangential = 0, vVertical = 0,
      temp = (1 - (80 - 18) / 80) powr 0.75, baseTemp = (1 - (80 - 18) / 80) powr 0.75,
      heatFromViscosity = 0, density = (50 / 80) powr 1.5,
      particleSize = 0.35 + (50 / 80) powr 1.5 * 0.3, dp_mass = 1,
      magneticFieldLine = 0, isInISCO = False, timeInISCO = 0\<rparr>"

definition infallenParticle :: DiskParticle where
  "infallenParticle = outerParticle\<lparr>dp_radius := 1\<rparr>"

definition violentParticle :: DiskParticle where
  "violentParticle = outerParticle\<lparr>infallSpeed := 10000, dp_mass := 1.08\<rparr>"

definition emptyWorld :: DiskWorld where
  "emptyWorld = \<lparr>launchedParticles = [], particleTrails = [], launchesThisFrame = 0, cursor = 0\<rparr>"

definition quietEnv :: DiskEnv where
  "quietEnv = \<lparr>env_params = defaultParams\<lparr>showCompanionStar := False\<rparr>,
     env_companion = Some defaultCompanion, iscoRadius = getISCO 66 0.7,
     env_random = halfStream\<rparr>"

definition trailingCompanion :: CompanionStar where
  "trailingCompanion =
     updateOrbitalPosition
       (defaultCompanion\<lparr>mass := 90, orbitalRadius := 100,
          orbitalVelocity := sqrt ((0.1 * 66000000000) / 100),
          influenceRadius := 100 * ((90 / (66000000000 / 1000000000)) / 3) powr (1 / 3),
          angle := - arctan (3 / 4)\<rparr>)"

definition trailingEnv :: DiskEnv where
  "trailingEnv = \<lparr>env_params = defaultParams, env_companion = Some trailingCompanion,
     iscoRadius = getISCO 66 0.7, env_random = halfStream\<rparr>"

section \<open>Facts about vectors and powers\<close>

lemma cube_root_1e9: "(1000000000::real) powr (1 / 3) = 1000"
proof -
  have "(1000000000::real) = 1000 powr 3" by simp
  then have "(1000000000::real) powr (1 / 3) = (1000 powr 3) powr (1 / 3)" by simp
  also have "\<dots> = 1000 powr (3 * (1 / 3))" by (rule powr_powr)
  finally show ?thesis by simp
qed

lemma hill_ratio:
  assumes "0 \<le> (m::real)" "0 < (M::real)"
  shows "((m / (M / 1000000000)) / 3) powr (1 / 3) = 1000 * (m / (3 * M)) powr (1 / 3)"
proof -
  have eq: "(m / (M / 1000000000)) / 3 = 1000000000 * (m / (3 * M))"
    using assms by (simp add: field_simps)
  have "(1000000000 * (m / (3 * M))) powr (1 / 3)
          = 1000000000 powr (1 / 3) * (m / (3 * M)) powr (1 / 3)"
    by (rule powr_mult)
  then show ?thesis
    by (simp only: eq cube_root_1e9)
qed

lemma sqrt9: "sqrt (9::real) = 3"
  by (rule real_sqrt_unique) simp_all

lemma length3_nonneg: "0 \<le> length3 a"
  by (simp add: length3_def)

lemma length3_multiplyScalar: "length3 (multiplyScalar a s) = \<bar>s\<bar> * length3 a"
proof -
  have "vx a * s * (vx a * s) + vy a * s * (vy a * s) + vz a * s * (vz a * s)
        = s^2 * (vx a * vx a + vy a * vy a + vz a * vz a)"
    by (simp add: power2_eq_square algebra_simps)
  then show ?thesis
    by (simp add: length3_def multiplyScalar_def real_sqrt_mult)
qed

lemma length3_normalize: "length3 a \<noteq> 0 \<Longrightarrow> length3 (normalize a) = 1"
  using length3_nonneg[of a]
  by (simp add: normalize_def length3_multiplyScalar)

lemma length3_normalize_zero: "length3 a = 0 \<Longrightarrow> length3 (normalize a) = 0"
  by (simp add: normalize_def length3_multiplyScalar)

lemma default_influence: "100 \<le> influenceRadius defaultCompanion"
proof -
  have a: "(2/5::real) = (8/125) powr (1/3)"
  proof -
    have p: "(2/5::real) powr 3 = 8/125" by (simp add: power3_eq_cube)
    have "((2/5::real) powr 3) powr (1/3) = (2/5) powr (3 * (1/3))" by (rule powr_powr)
    then have "(8/125::real) powr (1/3) = (2/5) powr (3 * (1/3))" by (simp only: p)
    then show ?thesis by simp
  qed
  have "(8/125::real) powr (1/3) \<le> ((40 / (66000000000 / 1000000000)) / 3) powr (1 / 3)"
    by (rule powr_mono2) simp_all
  with a show ?thesis by (simp add: defaultCompanion_def)
qed

section \<open>The two Hill radii\<close>

text \<open>
  C10. \<open>CompanionStar.calculateHillRadius\<close> divides the central mass by 1e9 before taking
  the cube root, \<open>OrbitalMechanics.calculateHillSphere\<close> does not. For the same body mass,
  orbital radius and central mass (masses in the range where \<open>Math.pow\<close> is defined: body
  mass not negative, central mass positive) the first is exactly 1000 times the second,
  so the two differ wherever the result is not zero.
\<close>

theorem hill_radius_mismatch:
  assumes "0 \<le> mass c" and "0 < blackHoleMass c"
  shows "calculateHillRadius c =
           1000 * calculateHillSphere (blackHoleMass c) (mass c) (orbitalRadius c)
         \<and> (mass c \<noteq> 0 \<and> orbitalRadius c \<noteq> 0 \<longrightarrow>
              calculateHillRadius c \<noteq>
                calculateHillSphere (blackHoleMass c) (mass c) (orbitalRadius c))"
proof -
  let ?s = "calculateHillSphere (blackHoleMass c) (mass c) (orbitalRadius c)"
  have eq: "calculateHillRadius c = 1000 * ?s"
    using hill_ratio[OF assms]
    by (simp add: calculateHillRadius_def calculateHillSphere_def)
  have "?s \<noteq> 0" if "mass c \<noteq> 0" "orbitalRadius c \<noteq> 0"
    using that assms by (simp add: calculateHillSphere_def)
  with eq show ?thesis by auto
qed

theorem hill_radius_mismatch_witness:
  "0 \<le> mass defaultCompanion \<and> 0 < blackHoleMass defaultCompanion
   \<and> calculateHillRadius defaultCompanion = 1000 * calculateHillSphere 66000000000 40 250
   \<and> calculateHillRadius defaultCompanion \<noteq> calculateHillSphere 66000000000 40 250"
proof -
  have h1: "0 \<le> mass defaultCompanion" and h2: "0 < blackHoleMass defaultCompanion"
    by (simp_all add: defaultCompanion_def)
  have f: "blackHoleMass defaultCompanion = 66000000000" "mass defaultCompanion = 40"
    "orbitalRadius defaultCompanion = 250"
    by (simp_all add: defaultCompanion_def)
  from hill_radius_mismatch[OF h1 h2] show ?thesis
    unfolding f using h1 h2 by simp
qed

section \<open>Companion gravity and wind\<close>

lemma gravity_unfolded:
  "calculateGravitationalForce c p =
     (if enableGravity c \<and> length3 (subVectors (position c) p) \<le> influenceRadius c
      then multiplyScalar (normalize (subVectors (position c) p))
             (mass c * gravitationalStrength c /
             (length3 (subVectors (position c) p) * length3 (subVectors (position c) p) + 1) * 0.001)
      else Vector3 0 0 0)"
  by (simp add: calculateGravitationalForce_def Let_def)

lemma wind_unfolded:
  "calculateWindForce c p =
     (if enableWind c \<and> length3 (subVectors p (position c)) \<le> radius c * 2
      then multiplyScalar (normalize (subVectors p (position c)))
             (windDensity c * windVelocity c /
             (length3 (subVectors p (position c)) * length3 (subVectors p (position c)) + 1) * 0.0001)
      else Vector3 0 0 0)"
  by (simp add: calculateWindForce_def Let_def)

lemma length3_scaled_unit:
  "length3 a \<noteq> 0 \<Longrightarrow> length3 (multiplyScalar (normalize a) s) = \<bar>s\<bar>"
  by (simp add: length3_multiplyScalar length3_normalize)

text \<open>
  C7, as the claim states it, fails: with the companion's gravity switched off
  (\<open>enableGravity = false\<close>, set from the control panel through \<open>setParameters\<close>) a particle
  at distance 3, well inside the influence radius, feels no force, although
  \<open>mass * gravitationalStrength / (d\<^sup>2 + 1)\<close> is 4 there.
\<close>

theorem companion_gravity_counterexample:
  "length3 (subVectors (position quietCompanion) (Vector3 250 0 3)) = 3
   \<and> 3 \<le> influenceRadius quietCompanion
   \<and> mass quietCompanion * gravitationalStrength quietCompanion / (3 * 3 + 1) = 4
   \<and> calculateGravitationalForce quietCompanion (Vector3 250 0 3) = Vector3 0 0 0"
proof -
  have "length3 (subVectors (position quietCompanion) (Vector3 250 0 3)) = 3"
    by (simp add: quietCompanion_def defaultCompanion_def subVectors_def length3_def sqrt9)
  moreover have "3 \<le> influenceRadius quietCompanion"
    using default_influence by (simp add: quietCompanion_def)
  moreover have "mass quietCompanion * gravitationalStrength quietCompanion / (3 * 3 + 1) = 4"
    by (simp add: quietCompanion_def defaultCompanion_def)
  moreover have "calculateGravitationalForce quietCompanion (Vector3 250 0 3) = Vector3 0 0 0"
    by (simp add: calculateGravitationalForce_def quietCompanion_def)
  ultimately show ?thesis by blast
qed

text \<open>
  C7, amended. Each contribution has a switch of its own. With gravity enabled the force
  is zero beyond the influence radius and otherwise is
  \<open>0.001 * mass * gravitationalStrength / (d\<^sup>2 + 1)\<close> times the unit vector from the
  particle to the companion; with gravity disabled it is zero everywhere. With the wind
  enabled the force is zero beyond twice the companion's radius and otherwise is
  \<open>0.0001 * windDensity * windVelocity / (d\<^sup>2 + 1)\<close> times the unit vector from the
  companion to the particle; with the wind disabled it is zero everywhere. At \<open>d = 0\<close>
  the unit vector, and so the force, is the zero vector; elsewhere the magnitude is the
  absolute value of the factor.
\<close>

theorem companion_forces_gated:
  "(\<not> enableGravity c \<or> length3 (subVectors (position c) p) > influenceRadius c \<longrightarrow>
      calculateGravitationalForce c p = Vector3 0 0 0)
   \<and> (enableGravity c \<and> length3 (subVectors (position c) p) \<le> influenceRadius c \<longrightarrow>
      calculateGravitationalForce c p =
        multiplyScalar (normalize (subVectors (position c) p))
          (mass c * gravitationalStrength c /
             (length3 (subVectors (position c) p) * length3 (subVectors (position c) p) + 1) * 0.001)
      \<and> length3 (calculateGravitationalForce c p) =
          (if length3 (subVectors (position c) p) = 0 then 0
           else \<bar>mass c * gravitationalStrength c\<bar> /
             (length3 (subVectors (position c) p) * length3 (subVectors (position c) p) + 1) * 0.001))
   \<and> (\<not> enableWind c \<or> length3 (subVectors p (position c)) > radius c * 2 \<longrightarrow>
      calculateWindForce c p = Vector3 0 0 0)
   \<and> (enableWind c \<and> length3 (subVectors p (position c)) \<le> radius c * 2 \<longrightarrow>
      calculateWindForce c p =
        multiplyScalar (normalize (subVectors p (position c)))
          (windDensity c * windVelocity c /
             (length3 (subVectors p (position c)) * length3 (subVectors p (position c)) + 1) * 0.0001)
      \<and> length3 (calculateWindForce c p) =
          (if length3 (subVectors p (position c)) = 0 then 0
           else \<bar>windDensity c * windVelocity c\<bar> /
             (length3 (subVectors p (position c)) * length3 (subVectors p (position c)) + 1) * 0.0001))"
proof -
  let ?g = "subVectors (position c) p" and ?w = "subVectors p (position c)"
  have pos: "0 < length3 v * length3 v + 1" for v
    by (rule add_nonneg_pos) simp_all
  have g0: "\<not> enableGravity c \<or> length3 ?g > influenceRadius c \<Longrightarrow>
      calculateGravitationalForce c p = Vector3 0 0 0"
    by (auto simp: gravity_unfolded)
  have g1: "calculateGravitationalForce c p =
        multiplyScalar (normalize ?g)
          (mass c * gravitationalStrength c /
             (length3 ?g * length3 ?g + 1) * 0.001)"
    if "enableGravity c \<and> length3 ?g \<le> influenceRadius c"
    using that by (simp add: gravity_unfolded)
  have g2: "length3 (calculateGravitationalForce c p) =
          (if length3 ?g = 0 then 0
           else \<bar>mass c * gravitationalStrength c\<bar> /
             (length3 ?g * length3 ?g + 1) * 0.001)"
    if "enableGravity c \<and> length3 ?g \<le> influenceRadius c"
  proof (cases "length3 ?g = 0")
    case True
    then show ?thesis
      unfolding g1[OF that] by (simp add: length3_multiplyScalar length3_normalize_zero)
  next
    case False
    then show ?thesis
      unfolding g1[OF that] using pos[of ?g]
      by (simp add: length3_scaled_unit abs_mult)
  qed
  have w0: "\<not> enableWind c \<or> length3 ?w > radius c * 2 \<Longrightarrow>
      calculateWindForce c p = Vector3 0 0 0"
    by (auto simp: wind_unfolded)
  have w1: "calculateWindForce c p =
        multiplyScalar (normalize ?w)
          (windDensity c * windVelocity c /
             (length3 ?w * length3 ?w + 1) * 0.0001)"
    if "enableWind c \<and> length3 ?w \<le> radius c * 2"
    using that by (simp add: wind_unfolded)
  have w2: "length3 (calculateWindForce c p) =
          (if length3 ?w = 0 then 0
           else \<bar>windDensity c * windVelocity c\<bar> /
             (length3 ?w * length3 ?w + 1) * 0.0001)"
    if "enableWind c \<and> length3 ?w \<le> radius c * 2"
  proof (cases "length3 ?w = 0")
    case True
    then show ?thesis
      unfolding w1[OF that] by (simp add: length3_multiplyScalar length3_normalize_zero)
  next
    case False
    then show ?thesis
      unfolding w1[OF that] using pos[of ?w]
      by (simp add: length3_scaled_unit abs_mult)
  qed
  from g0 g1 g2 w0 w1 w2 show ?thesis by blast
qed

theorem companion_forces_gated_witness:
  "enableGravity defaultCompanion
   \<and> length3 (subVectors (position defaultCompanion) (Vector3 250 0 3)) \<le> influenceRadius defaultCompanion
   \<and> calculateGravitationalForce defaultCompanion (Vector3 250 0 3) = Vector3 0 0 (- (4 / 1000))
   \<and> enableWind defaultCompanion
   \<and> length3 (subVectors (Vector3 250 0 3) (position defaultCompanion)) \<le> radius defaultCompanion * 2
   \<and> calculateWindForce defaultCompanion (Vector3 250 0 3) = Vector3 0 0 (2 / 100)
   \<and> \<not> enableGravity quietCompanion
   \<and> calculateGravitationalForce quietCompanion (Vector3 250 0 200) = Vector3 0 0 0
   \<and> length3 (subVectors (Vector3 250 0 200) (position quietCompanion)) > radius quietCompanion * 2
   \<and> calculateWindForce quietCompanion (Vector3 250 0 200) = Vector3 0 0 0"
proof -
  have lg: "length3 (subVectors (position defaultCompanion) (Vector3 250 0 3)) = 3"
    by (simp add: defaultCompanion_def subVectors_def length3_def sqrt9)
  have lw: "length3 (subVectors (Vector3 250 0 3) (position defaultCompanion)) = 3"
    by (simp add: defaultCompanion_def subVectors_def length3_def sqrt9)
  have eg: "enableGravity defaultCompanion" and ew: "enableWind defaultCompanion"
    by (simp_all add: defaultCompanion_def)
  have ig: "length3 (subVectors (position defaultCompanion) (Vector3 250 0 3))
              \<le> influenceRadius defaultCompanion"
    using default_influence unfolding lg by simp
  have iw: "length3 (subVectors (Vector3 250 0 3) (position defaultCompanion))
              \<le> radius defaultCompanion * 2"
    unfolding lw by (simp add: defaultCompanion_def)
  note t = companion_forces_gated[of defaultCompanion "Vector3 250 0 3"]
  from t eg ig have "calculateGravitationalForce defaultCompanion (Vector3 250 0 3) =
        multiplyScalar (normalize (subVectors (position defaultCompanion) (Vector3 250 0 3)))
          (mass defaultCompanion * gravitationalStrength defaultCompanion /
             (length3 (subVectors (position defaultCompanion) (Vector3 250 0 3)) *
              length3 (subVectors (position defaultCompanion) (Vector3 250 0 3)) + 1) * 0.001)"
    by blast
  then have g: "calculateGravitationalForce defaultCompanion (Vector3 250 0 3) = Vector3 0 0 (- (4 / 1000))"
    unfolding lg normalize_def
    by (simp add: lg defaultCompanion_def subVectors_def multiplyScalar_def)
  from t ew iw have "calculateWindForce defaultCompanion (Vector3 250 0 3) =
        multiplyScalar (normalize (subVectors (Vector3 250 0 3) (position defaultCompanion)))
          (windDensity defaultCompanion * windVelocity defaultCompanion /
             (length3 (subVectors (Vector3 250 0 3) (position defaultCompanion)) *
              length3 (subVectors (Vector3 250 0 3) (position defaultCompanion)) + 1) * 0.0001)"
    by blast
  then have w: "calculateWindForce defaultCompanion (Vector3 250 0 3) = Vector3 0 0 (2 / 100)"
    unfolding lw normalize_def
    by (simp add: lw defaultCompanion_def subVectors_def multiplyScalar_def)
  have lf: "length3 (subVectors (Vector3 250 0 200) (position quietCompanion)) = 200"
    by (simp add: quietCompanion_def defaultCompanion_def subVectors_def length3_def)
  have fw: "length3 (subVectors (Vector3 250 0 200) (position quietCompanion)) > radius quietCompanion * 2"
    unfolding lf by (simp add: quietCompanion_def defaultCompanion_def)
  with companion_forces_gated[of quietCompanion "Vector3 250 0 200"]
  have w0: "calculateWindForce quietCompanion (Vector3 250 0 200) = Vector3 0 0 0"
    by blast
  have ng: "\<not> enableGravity quietCompanion" by (simp add: quietCompanion_def)
  with companion_forces_gated[of quietCompanion "Vector3 250 0 200"]
  have g0: "calculateGravitationalForce quietCompanion (Vector3 250 0 200) = Vector3 0 0 0"
    by blast
  from eg ig g ew iw w ng g0 fw w0 show ?thesis by blast
qed

section \<open>Reconfiguring the companion\<close>

lemma setField_other:
  "(\<And>x s. f (upd x s) = f s) \<Longrightarrow> f (setField v upd c) = f c"
  by (simp add: setField_def split: option.splits)

lemma setField_same:
  "(\<And>x s. f (upd x s) = x) \<Longrightarrow>
     f (setField v upd c) = (case v of None \<Rightarrow> f c | Some x \<Rightarrow> x)"
  by (simp add: setField_def split: option.splits)

lemma setMass_fields:
  "mass (setMass v c) = (case v of None \<Rightarrow> mass c | Some m \<Rightarrow> m)"
  "orbitalRadius (setMass v c) = orbitalRadius c"
  "blackHoleMass (setMass v c) = blackHoleMass c"
  "temperature (setMass v c) = temperature c"
  "windVelocity (setMass v c) = windVelocity c"
  "windDensity (setMass v c) = windDensity c"
  "gravitationalStrength (setMass v c) = gravitationalStrength c"
  "orbitalVelocity (setMass v c) = orbitalVelocity c"
  "hawkingRadiationIntensity (setMass v c) = hawkingRadiationIntensity c"
  "enableWind (setMass v c) = enableWind c"
  "enableGravity (setMass v c) = enableGravity c"
  "enableQuantumEffects (setMass v c) = enableQuantumEffects c"
  "position (setMass v c) = position c"
  "velocity (setMass v c) = velocity c"
  "radius (setMass v c) = radius c"
  "angle (setMass v c) = angle c"
  "inclination (setMass v c) = inclination c"
  "eccentricity (setMass v c) = eccentricity c"
  by (simp_all add: setMass_def Let_def split: option.splits)

lemma setOrbitalRadius_fields:
  "mass (setOrbitalRadius v c) = mass c"
  "orbitalRadius (setOrbitalRadius v c) = (case v of None \<Rightarrow> orbitalRadius c | Some r \<Rightarrow> r)"
  "blackHoleMass (setOrbitalRadius v c) = blackHoleMass c"
  "temperature (setOrbitalRadius v c) = temperature c"
  "windVelocity (setOrbitalRadius v c) = windVelocity c"
  "windDensity (setOrbitalRadius v c) = windDensity c"
  "gravitationalStrength (setOrbitalRadius v c) = gravitationalStrength c"
  "orbitalVelocity (setOrbitalRadius v c) =
     (case v of None \<Rightarrow> orbitalVelocity c | Some r \<Rightarrow> sqrt ((0.1 * blackHoleMass c) / r))"
  "hawkingRadiationIntensity (setOrbitalRadius v c) = hawkingRadiationIntensity c"
  "enableWind (setOrbitalRadius v c) = enableWind c"
  "enableGravity (setOrbitalRadius v c) = enableGravity c"
  "enableQuantumEffects (setOrbitalRadius v c) = enableQuantumEffects c"
  "position (setOrbitalRadius v c) =
     (case v of None \<Rightarrow> position c
      | Some r \<Rightarrow> Vector3 (cos (angle c) * r) (sin (inclination c) * r * sin (angle c))
                           (sin (angle c) * r * cos (inclination c)))"
  "velocity (setOrbitalRadius None c) = velocity c"
  "radius (setOrbitalRadius v c) = radius c"
  "angle (setOrbitalRadius v c) = angle c"
  "inclination (setOrbitalRadius v c) = inclination c"
  "eccentricity (setOrbitalRadius v c) = eccentricity c"
  by (simp_all add: setOrbitalRadius_def updateOrbitalPosition_def calculateOrbitalVelocity_def
      Let_def split: option.splits)

lemma mass_setParameters:
  "mass (setParameters params c) = (case p_mass params of None \<Rightarrow> mass c | Some m \<Rightarrow> m)"
  by (cases "p_mass params")
     (simp_all add: setParameters_def Let_def setField_other[where f = mass]
      setMass_fields setOrbitalRadius_fields)

lemma orbitalRadius_setParameters:
  "orbitalRadius (setParameters params c) =
     (case p_orbitalRadius params of None \<Rightarrow> orbitalRadius c | Some r \<Rightarrow> r)"
  by (cases "p_orbitalRadius params")
     (simp_all add: setParameters_def Let_def setField_other[where f = orbitalRadius]
      setMass_fields setOrbitalRadius_fields)

lemma blackHoleMass_setParameters:
  "blackHoleMass (setParameters params c) = blackHoleMass c"
  by (simp add: setParameters_def Let_def setField_other[where f = blackHoleMass]
      setMass_fields setOrbitalRadius_fields)

lemma radius_setParameters:
  "radius (setParameters params c) = radius c"
  by (simp add: setParameters_def Let_def setField_other[where f = radius]
      setMass_fields setOrbitalRadius_fields)

lemma angle_setParameters:
  "angle (setParameters params c) = angle c"
  by (simp add: setParameters_def Let_def setField_other[where f = angle]
      setMass_fields setOrbitalRadius_fields)

lemma inclination_setParameters:
  "inclination (setParameters params c) = inclination c"
  by (simp add: setParameters_def Let_def setField_other[where f = inclination]
      setMass_fields setOrbitalRadius_fields)

lemma eccentricity_setParameters:
  "eccentricity (setParameters params c) = eccentricity c"
  by (simp add: setParameters_def Let_def setField_other[where f = eccentricity]
      setMass_fields setOrbitalRadius_fields)

lemma temperature_setParameters:
  "temperature (setParameters params c) =
     (case p_temperature params of None \<Rightarrow> temperature c | Some t \<Rightarrow> t)"
  by (cases "p_temperature params")
     (simp_all add: setParameters_def Let_def setField_other[where f = temperature]
      setField_same[where f = temperature] setMass_fields setOrbitalRadius_fields)

lemma windVelocity_setParameters:
  "windVelocity (setParameters params c) =
     (case p_windVelocity params of None \<Rightarrow> windVelocity c | Some v \<Rightarrow> v)"
  by (cases "p_windVelocity params")
     (simp_all add: setParameters_def Let_def setField_other[where f = windVelocity]
      setField_same[where f = windVelocity] setMass_fields setOrbitalRadius_fields)

lemma windDensity_setParameters:
  "windDensity (setParameters params c) =
     (case p_windDensity params of None \<Rightarrow> windDensity c | Some d \<Rightarrow> d)"
  by (cases "p_windDensity params")
     (simp_all add: setParameters_def Let_def setField_other[where f = windDensity]
      setField_same[where f = windDensity] setMass_fields setOrbitalRadius_fields)

lemma gravitationalStrength_setParameters:
  "gravitationalStrength (setParameters params c) =
     (case p_gravitationalStrength params of None \<Rightarrow> gravitationalStrength c | Some g \<Rightarrow> g)"
  by (cases "p_gravitationalStrength params")
     (simp_all add: setParameters_def Let_def setField_other[where f = gravitationalStrength]
      setField_same[where f = gravitationalStrength] setMass_fields setOrbitalRadius_fields)

lemma hawkingRadiationIntensity_setParameters:
  "hawkingRadiationIntensity (setParameters params c) =
     (case p_hawkingRadiationIntensity params of None \<Rightarrow> hawkingRadiationIntensity c | Some h \<Rightarrow> h)"
  by (cases "p_hawkingRadiationIntensity params")
     (simp_all add: setParameters_def Let_def setField_other[where f = hawkingRadiationIntensity]
      setField_same[where f = hawkingRadiationIntensity] setMass_fields setOrbitalRadius_fields)

lemma enableWind_setParameters:
  "enableWind (setParameters params c) =
     (case p_enableWind params of None \<Rightarrow> enableWind c | Some b \<Rightarrow> b)"
  by (cases "p_enableWind params")
     (simp_all add: setParameters_def Let_def setField_other[where f = enableWind]
      setField_same[where f = enableWind] setMass_fields setOrbitalRadius_fields)

lemma enableGravity_setParameters:
  "enableGravity (setParameters params c) =
     (case p_enableGravity params of None \<Rightarrow> enableGravity c | Some b \<Rightarrow> b)"
  by (cases "p_enableGravity params")
     (simp_all add: setParameters_def Let_def setField_other[where f = enableGravity]
      setField_same[where f = enableGravity] setMass_fields setOrbitalRadius_fields)

lemma enableQuantumEffects_setParameters:
  "enableQuantumEffects (setParameters params c) =
     (case p_enableQuantumEffects params of None \<Rightarrow> enableQuantumEffects c | Some b \<Rightarrow> b)"
  by (cases "p_enableQuantumEffects params")
     (simp_all add: setParameters_def Let_def setField_other[where f = enableQuantumEffects]
      setField_same[where f = enableQuantumEffects] setMass_fields setOrbitalRadius_fields)

lemma orbitalVelocity_setParameters:
  "orbitalVelocity (setParameters params c) =
     (case p_orbitalVelocity params of
        Some v \<Rightarrow> v
      | None \<Rightarrow> (case p_orbitalRadius params of
                   None \<Rightarrow> orbitalVelocity c
                 | Some r \<Rightarrow> sqrt ((0.1 * blackHoleMass c) / r)))"
  by (cases "p_orbitalVelocity params"; cases "p_orbitalRadius params")
     (simp_all add: setParameters_def Let_def setField_other[where f = orbitalVelocity]
      setField_same[where f = orbitalVelocity] setField_other[where f = blackHoleMass]
      setMass_fields setOrbitalRadius_fields)

lemma position_setParameters:
  "position (setParameters params c) =
     (case p_orbitalRadius params of
        None \<Rightarrow> position c
      | Some r \<Rightarrow> Vector3 (cos (angle c) * r) (sin (inclination c) * r * sin (angle c))
                           (sin (angle c) * r * cos (inclination c)))"
  by (cases "p_orbitalRadius params")
     (simp_all add: setParameters_def Let_def setField_other[where f = position]
      setField_other[where f = angle] setField_other[where f = inclination]
      setMass_fields setOrbitalRadius_fields)

lemma velocity_setParameters:
  "p_orbitalRadius params = None \<Longrightarrow> velocity (setParameters params c) = velocity c"
  by (simp add: setParameters_def Let_def setField_other[where f = velocity]
      setMass_fields setOrbitalRadius_fields)

lemma influenceRadius_setMass:
  "influenceRadius (setMass v c) =
     (case v of None \<Rightarrow> influenceRadius c | Some m \<Rightarrow> calculateHillRadius (c\<lparr>mass := m\<rparr>))"
  by (simp add: setMass_def Let_def split: option.splits)

lemma influenceRadius_setOrbitalRadius:
  "influenceRadius (setOrbitalRadius v c) =
     (case v of None \<Rightarrow> influenceRadius c
      | Some r \<Rightarrow> calculateHillRadius (c\<lparr>orbitalRadius := r\<rparr>))"
  by (simp add: setOrbitalRadius_def updateOrbitalPosition_def calculateHillRadius_def Let_def
      split: option.splits)

lemma influenceRadius_setParameters:
  "influenceRadius (setParameters params c) =
     (if p_mass params = None \<and> p_orbitalRadius params = None then influenceRadius c
      else calculateHillRadius (setParameters params c))"
proof -
  have i: "influenceRadius (setParameters params c) =
      influenceRadius (setOrbitalRadius (p_orbitalRadius params)
        (setField (p_temperature params) (\<lambda>x s. s\<lparr>temperature := x\<rparr>)
          (setMass (p_mass params) c)))"
    by (simp add: setParameters_def Let_def setField_other[where f = influenceRadius])
  have h: "calculateHillRadius (setParameters params c) =
      (case p_orbitalRadius params of None \<Rightarrow> orbitalRadius c | Some r \<Rightarrow> r) *
      (((case p_mass params of None \<Rightarrow> mass c | Some m \<Rightarrow> m) /
        (blackHoleMass c / 1000000000)) / 3) powr (1 / 3)"
    by (simp add: calculateHillRadius_def mass_setParameters orbitalRadius_setParameters
        blackHoleMass_setParameters)
  show ?thesis
    unfolding i h
    by (cases "p_mass params"; cases "p_orbitalRadius params")
       (simp_all add: influenceRadius_setOrbitalRadius influenceRadius_setMass
          setField_other[where f = influenceRadius] setField_other[where f = mass]
          setField_other[where f = blackHoleMass] setField_other[where f = orbitalRadius]
          setMass_fields calculateHillRadius_def)
qed

lemma setParameters_noParams: "setParameters noParams c = c"
  by (simp add: setParameters_def noParams_def setField_def setMass_def setOrbitalRadius_def)

text \<open>
  C8, as the claim states it, fails: \<open>setParameters({mass: -1})\<close> on the default companion
  returns normally with the mass set to -1, so nothing is rejected and the prior
  configuration is not retained.
\<close>

theorem setParameters_negative_mass_counterexample:
  "mass defaultCompanion = 40
   \<and> mass (setParameters (noParams\<lparr>p_mass := Some (- 1)\<rparr>) defaultCompanion) = - 1
   \<and> setParameters (noParams\<lparr>p_mass := Some (- 1)\<rparr>) defaultCompanion \<noteq> defaultCompanion"
proof -
  have a: "mass defaultCompanion = 40" by (simp add: defaultCompanion_def)
  have b: "mass (setParameters (noParams\<lparr>p_mass := Some (- 1)\<rparr>) defaultCompanion) = - 1"
    by (simp add: mass_setParameters noParams_def)
  from a b have "setParameters (noParams\<lparr>p_mass := Some (- 1)\<rparr>) defaultCompanion \<noteq> defaultCompanion"
    by auto
  with a b show ?thesis by blast
qed

text \<open>
  C8, amended. \<open>setParameters\<close> validates nothing and rejects nothing. Each of the eleven
  parameters it reads (mass, temperature, orbitalRadius, orbitalVelocity, windVelocity,
  windDensity, gravitationalStrength, hawkingRadiationIntensity, enableWind, enableGravity,
  enableQuantumEffects), when supplied, is stored as given, whatever its value (a negative
  mass included). A field whose parameter is not supplied keeps its value, with the derived
  fields as the exception: \<open>orbitalVelocity\<close>, when not supplied itself, is recomputed as
  \<open>sqrt(0.1 * blackHoleMass / orbitalRadius)\<close> whenever \<open>orbitalRadius\<close> is supplied (stated
  for a positive radius and a central mass that is not negative, where the square root is
  defined); the position is recomputed from the orbital angle at the new radius whenever
  \<open>orbitalRadius\<close> is supplied, and position and velocity are unchanged otherwise; the
  influence radius is recomputed by \<open>calculateHillRadius\<close> from the new state whenever
  \<open>mass\<close> or \<open>orbitalRadius\<close> is supplied (stated for a resulting mass that is not negative
  and a positive central mass, where \<open>Math.pow\<close> is defined) and is unchanged otherwise.
  \<open>blackHoleMass\<close>, \<open>radius\<close>, \<open>angle\<close>, \<open>inclination\<close> and \<open>eccentricity\<close> are never changed, and
  an empty parameter object leaves the companion unchanged.
\<close>

theorem setParameters_stores_unvalidated:
  "mass (setParameters params c) = (case p_mass params of None \<Rightarrow> mass c | Some m \<Rightarrow> m)
   \<and> orbitalRadius (setParameters params c) =
       (case p_orbitalRadius params of None \<Rightarrow> orbitalRadius c | Some r \<Rightarrow> r)
   \<and> temperature (setParameters params c) =
       (case p_temperature params of None \<Rightarrow> temperature c | Some t \<Rightarrow> t)
   \<and> windVelocity (setParameters params c) =
       (case p_windVelocity params of None \<Rightarrow> windVelocity c | Some v \<Rightarrow> v)
   \<and> windDensity (setParameters params c) =
       (case p_windDensity params of None \<Rightarrow> windDensity c | Some d \<Rightarrow> d)
   \<and> gravitationalStrength (setParameters params c) =
       (case p_gravitationalStrength params of None \<Rightarrow> gravitationalStrength c | Some g \<Rightarrow> g)
   \<and> hawkingRadiationIntensity (setParameters params c) =
       (case p_hawkingRadiationIntensity params of
          None \<Rightarrow> hawkingRadiationIntensity c | Some h \<Rightarrow> h)
   \<and> enableWind (setParameters params c) =
       (case p_enableWind params of None \<Rightarrow> enableWind c | Some b \<Rightarrow> b)
   \<and> enableGravity (setParameters params c) =
       (case p_enableGravity params of None \<Rightarrow> enableGravity c | Some b \<Rightarrow> b)
   \<and> enableQuantumEffects (setParameters params c) =
       (case p_enableQuantumEffects params of None \<Rightarrow> enableQuantumEffects c | Some b \<Rightarrow> b)
   \<and> (p_orbitalVelocity params = Some v \<longrightarrow> orbitalVelocity (setParameters params c) = v)
   \<and> (p_orbitalVelocity params = None \<and> p_orbitalRadius params = None \<longrightarrow>
        orbitalVelocity (setParameters params c) = orbitalVelocity c)
   \<and> (p_orbitalVelocity params = None \<and> p_orbitalRadius params = Some r
        \<and> 0 < r \<and> 0 \<le> blackHoleMass c \<longrightarrow>
        orbitalVelocity (setParameters params c) = sqrt ((0.1 * blackHoleMass c) / r))
   \<and> (p_orbitalRadius params = Some r \<longrightarrow>
        position (setParameters params c) =
          Vector3 (cos (angle c) * r) (sin (inclination c) * r * sin (angle c))
                  (sin (angle c) * r * cos (inclination c)))
   \<and> (p_orbitalRadius params = None \<longrightarrow>
        position (setParameters params c) = position c
        \<and> velocity (setParameters params c) = velocity c)
   \<and> (p_mass params = None \<and> p_orbitalRadius params = None \<longrightarrow>
        influenceRadius (setParameters params c) = influenceRadius c)
   \<and> (\<not> (p_mass params = None \<and> p_orbitalRadius params = None)
        \<and> 0 \<le> mass (setParameters params c) \<and> 0 < blackHoleMass c \<longrightarrow>
        influenceRadius (setParameters params c) = calculateHillRadius (setParameters params c))
   \<and> blackHoleMass (setParameters params c) = blackHoleMass c
   \<and> radius (setParameters params c) = radius c
   \<and> angle (setParameters params c) = angle c
   \<and> inclination (setParameters params c) = inclination c
   \<and> eccentricity (setParameters params c) = eccentricity c
   \<and> setParameters noParams c = c"
proof -
  have ov: "(p_orbitalVelocity params = Some v \<longrightarrow> orbitalVelocity (setParameters params c) = v)
     \<and> (p_orbitalVelocity params = None \<and> p_orbitalRadius params = None \<longrightarrow>
          orbitalVelocity (setParameters params c) = orbitalVelocity c)
     \<and> (p_orbitalVelocity params = None \<and> p_orbitalRadius params = Some r
          \<and> 0 < r \<and> 0 \<le> blackHoleMass c \<longrightarrow>
          orbitalVelocity (setParameters params c) = sqrt ((0.1 * blackHoleMass c) / r))"
    by (simp add: orbitalVelocity_setParameters)
  have ps: "(p_orbitalRadius params = Some r \<longrightarrow>
        position (setParameters params c) =
          Vector3 (cos (angle c) * r) (sin (inclination c) * r * sin (angle c))
                  (sin (angle c) * r * cos (inclination c)))
     \<and> (p_orbitalRadius params = None \<longrightarrow>
        position (setParameters params c) = position c
        \<and> velocity (setParameters params c) = velocity c)"
    by (simp add: position_setParameters velocity_setParameters)
  have ir: "(p_mass params = None \<and> p_orbitalRadius params = None \<longrightarrow>
        influenceRadius (setParameters params c) = influenceRadius c)
     \<and> (\<not> (p_mass params = None \<and> p_orbitalRadius params = None)
        \<and> 0 \<le> mass (setParameters params c) \<and> 0 < blackHoleMass c \<longrightarrow>
        influenceRadius (setParameters params c) = calculateHillRadius (setParameters params c))"
    using influenceRadius_setParameters[of params c] by auto
  from ov ps ir show ?thesis
    using mass_setParameters[of params c] orbitalRadius_setParameters[of params c]
      temperature_setParameters[of params c] windVelocity_setParameters[of params c]
      windDensity_setParameters[of params c] gravitationalStrength_setParameters[of params c]
      hawkingRadiationIntensity_setParameters[of params c] enableWind_setParameters[of params c]
      enableGravity_setParameters[of params c] enableQuantumEffects_setParameters[of params c]
      blackHoleMass_setParameters[of params c] radius_setParameters[of params c]
      angle_setParameters[of params c] inclination_setParameters[of params c]
      eccentricity_setParameters[of params c] setParameters_noParams[of c]
    by blast
qed

theorem setParameters_stores_unvalidated_witness:
  "mass (setParameters negativeMassParams defaultCompanion) = - 1
   \<and> orbitalRadius (setParameters negativeMassParams defaultCompanion) = 250
   \<and> orbitalVelocity (setParameters negativeMassParams defaultCompanion)
       = orbitalVelocity defaultCompanion
   \<and> position (setParameters negativeMassParams defaultCompanion) = Vector3 250 0 0
   \<and> mass (setParameters closerHeavierParams defaultCompanion) = 90
   \<and> orbitalRadius (setParameters closerHeavierParams defaultCompanion) = 100
   \<and> orbitalVelocity (setParameters closerHeavierParams defaultCompanion) = sqrt 66000000
   \<and> position (setParameters closerHeavierParams defaultCompanion) = Vector3 100 0 0
   \<and> influenceRadius (setParameters closerHeavierParams defaultCompanion)
       = calculateHillRadius (setParameters closerHeavierParams defaultCompanion)
   \<and> orbitalVelocity (setParameters switchParams defaultCompanion) = 5
   \<and> enableGravity (setParameters switchParams defaultCompanion) = False
   \<and> influenceRadius (setParameters switchParams defaultCompanion)
       = influenceRadius defaultCompanion"
proof -
  have n: "p_mass negativeMassParams = Some (- 1)" "p_orbitalRadius negativeMassParams = None"
    "p_orbitalVelocity negativeMassParams = None"
    by (simp_all add: negativeMassParams_def noParams_def)
  have h: "p_mass closerHeavierParams = Some 90" "p_orbitalRadius closerHeavierParams = Some 100"
    "p_orbitalVelocity closerHeavierParams = None"
    by (simp_all add: closerHeavierParams_def noParams_def)
  have w: "p_mass switchParams = None" "p_orbitalRadius switchParams = None"
    "p_orbitalVelocity switchParams = Some 5" "p_enableGravity switchParams = Some False"
    by (simp_all add: switchParams_def noParams_def)
  have d: "orbitalRadius defaultCompanion = 250" "position defaultCompanion = Vector3 250 0 0"
    "blackHoleMass defaultCompanion = 66000000000" "angle defaultCompanion = 0"
    "inclination defaultCompanion = 0"
    by (simp_all add: defaultCompanion_def)
  note t1 = setParameters_stores_unvalidated[of negativeMassParams defaultCompanion 0 0]
  note t2 = setParameters_stores_unvalidated[of closerHeavierParams defaultCompanion 0 100]
  note t3 = setParameters_stores_unvalidated[of switchParams defaultCompanion 5 0]
  have a1: "mass (setParameters negativeMassParams defaultCompanion) = - 1"
    and a2: "orbitalRadius (setParameters negativeMassParams defaultCompanion) = 250"
    using t1 by (simp_all add: n d)
  have a3: "orbitalVelocity (setParameters negativeMassParams defaultCompanion)
       = orbitalVelocity defaultCompanion"
    using t1 n by blast
  have "position (setParameters negativeMassParams defaultCompanion) = position defaultCompanion"
    using t1 n by blast
  then have a4: "position (setParameters negativeMassParams defaultCompanion) = Vector3 250 0 0"
    by (simp add: d)
  have b1: "mass (setParameters closerHeavierParams defaultCompanion) = 90"
    and b2: "orbitalRadius (setParameters closerHeavierParams defaultCompanion) = 100"
    using t2 by (simp_all add: h)
  have g: "(0::real) < 100 \<and> 0 \<le> blackHoleMass defaultCompanion" by (simp add: d)
  from t2 h g have "orbitalVelocity (setParameters closerHeavierParams defaultCompanion)
       = sqrt ((0.1 * blackHoleMass defaultCompanion) / 100)"
    by blast
  then have b3: "orbitalVelocity (setParameters closerHeavierParams defaultCompanion)
       = sqrt 66000000"
    by (simp add: d)
  from t2 h have "position (setParameters closerHeavierParams defaultCompanion) =
          Vector3 (cos (angle defaultCompanion) * 100)
                  (sin (inclination defaultCompanion) * 100 * sin (angle defaultCompanion))
                  (sin (angle defaultCompanion) * 100 * cos (inclination defaultCompanion))"
    by blast
  then have b4: "position (setParameters closerHeavierParams defaultCompanion) = Vector3 100 0 0"
    by (simp add: d)
  have g2: "\<not> (p_mass closerHeavierParams = None \<and> p_orbitalRadius closerHeavierParams = None)
      \<and> 0 \<le> mass (setParameters closerHeavierParams defaultCompanion)
      \<and> 0 < blackHoleMass defaultCompanion"
    by (simp add: h b1 d)
  from t2 g2 have b5: "influenceRadius (setParameters closerHeavierParams defaultCompanion)
       = calculateHillRadius (setParameters closerHeavierParams defaultCompanion)"
    by blast
  from t3 w have c1: "orbitalVelocity (setParameters switchParams defaultCompanion) = 5"
    by blast
  have c2: "enableGravity (setParameters switchParams defaultCompanion) = False"
    using t3 by (simp add: w)
  from t3 w have c3: "influenceRadius (setParameters switchParams defaultCompanion)
       = influenceRadius defaultCompanion"
    by blast
  from a1 a2 a3 a4 b1 b2 b3 b4 b5 c1 c2 c3 show ?thesis by blast
qed

section \<open>Tidal disruption of the star\<close>

lemma health_updateWith:
  "0 \<le> hl \<Longrightarrow> health (updateWith g hl s dt) \<le> health s"
  by (simp add: updateWith_def Let_def)

lemma disrupted_updateWith:
  "isDisrupted s \<Longrightarrow> isDisrupted (updateWith g hl s dt)"
  by (simp add: updateWith_def Let_def)

lemma threshold_updateWith:
  "(health s < 0.3 \<longrightarrow> isDisrupted s) \<Longrightarrow>
   health (updateWith g hl s dt) < 0.3 \<Longrightarrow> isDisrupted (updateWith g hl s dt)"
  by (simp add: updateWith_def Let_def split: if_splits)

lemma health_updates: "health (updates s dts) \<le> health s"
proof (induction dts arbitrary: s)
  case Nil
  show ?case by simp
next
  case (Cons dt dts)
  have "health (updates (update s dt) dts) \<le> health (update s dt)" by (rule Cons.IH)
  also have "\<dots> \<le> health s" by (simp add: update_def health_updateWith)
  finally show ?case by simp
qed

lemma disrupted_updates: "isDisrupted s \<Longrightarrow> isDisrupted (updates s dts)"
  by (induction dts arbitrary: s) (simp_all add: update_def disrupted_updateWith)

lemma threshold_updates:
  "(health s < 0.3 \<longrightarrow> isDisrupted s) \<Longrightarrow>
   health (updates s dts) < 0.3 \<Longrightarrow> isDisrupted (updates s dts)"
proof (induction dts arbitrary: s)
  case Nil
  then show ?case by simp
next
  case (Cons dt dts)
  have "health (update s dt) < 0.3 \<longrightarrow> isDisrupted (update s dt)"
    using threshold_updateWith[OF Cons.prems(1)] by (auto simp: update_def)
  from Cons.IH[OF this] Cons.prems(2) show ?case by simp
qed

lemma cube_root_66e9: "1000 \<le> (66000000000::real) powr (1 / 3)"
proof -
  have "(1000000000::real) powr (1 / 3) \<le> 66000000000 powr (1 / 3)"
    by (rule powr_mono2) simp_all
  then show ?thesis by (simp only: cube_root_1e9)
qed

lemma tidalRadius_newStar: "tidalRadius (newStar 66000000000) = 80"
  using cube_root_66e9 by (simp add: newStar_def calculateTidalRadius_def Let_def)

lemma sqrt1600: "sqrt (1600::real) = 40"
  by (rule real_sqrt_unique) simp_all

text \<open>
  C5. A tick never raises the star's integrity (\<open>health\<close>), in particular not while the
  star is inside its tidal radius; this holds for both versions of \<open>update\<close> and over any
  sequence of ticks. A tick never clears the disruption flag, over any sequence of ticks.
  The flag is set in the tick in which the integrity drops below 0.3: a state in which
  integrity below 0.3 implies the flag (the freshly constructed star, whose integrity is
  1, is one) is followed only by such states. The tidal radius is
  \<open>3 * 13 * (M_central / M_body)^(1/3)\<close> capped at 80, with 13 the event-horizon radius
  the code uses for \<open>r_s\<close>.
\<close>

theorem star_integrity_and_disruption:
  "health (update s dt) \<le> health s
   \<and> health (update2 s dt) \<le> health s
   \<and> health (updates s dts) \<le> health s
   \<and> (isDisrupted s \<longrightarrow> isDisrupted (update s dt) \<and> isDisrupted (update2 s dt)
         \<and> isDisrupted (updates s dts))
   \<and> ((health s < 0.3 \<longrightarrow> isDisrupted s) \<longrightarrow>
         (health (update s dt) < 0.3 \<longrightarrow> isDisrupted (update s dt))
       \<and> (health (update2 s dt) < 0.3 \<longrightarrow> isDisrupted (update2 s dt))
       \<and> (health (updates s dts) < 0.3 \<longrightarrow> isDisrupted (updates s dts)))
   \<and> (health (newStar bh) = 1 \<and> \<not> isDisrupted (newStar bh))
   \<and> calculateTidalRadius s =
        min (3 * 13 * (star_blackHoleMass s / star_mass s) powr (1 / 3)) 80
   \<and> tidalRadius (newStar bh) = min (3 * 13 * (bh / 1) powr (1 / 3)) 80"
proof -
  have a: "health (update s dt) \<le> health s" "health (update2 s dt) \<le> health s"
    by (simp_all add: update_def update2_def health_updateWith)
  have b: "isDisrupted s \<longrightarrow> isDisrupted (update s dt) \<and> isDisrupted (update2 s dt)
         \<and> isDisrupted (updates s dts)"
    by (simp add: update_def update2_def disrupted_updateWith disrupted_updates)
  have c: "(health s < 0.3 \<longrightarrow> isDisrupted s) \<longrightarrow>
         (health (update s dt) < 0.3 \<longrightarrow> isDisrupted (update s dt))
       \<and> (health (update2 s dt) < 0.3 \<longrightarrow> isDisrupted (update2 s dt))
       \<and> (health (updates s dts) < 0.3 \<longrightarrow> isDisrupted (updates s dts))"
    using threshold_updateWith[of s 3 "0.01" dt] threshold_updateWith[of s 4 "0.015" dt]
      threshold_updates[of s dts]
    unfolding update_def update2_def by blast
  have d: "health (newStar bh) = 1 \<and> \<not> isDisrupted (newStar bh)"
    by (simp add: newStar_def Let_def)
  have e: "calculateTidalRadius s =
        min (3 * 13 * (star_blackHoleMass s / star_mass s) powr (1 / 3)) 80"
    by (simp add: calculateTidalRadius_def Let_def)
  have f: "tidalRadius (newStar bh) = min (3 * 13 * (bh / 1) powr (1 / 3)) 80"
    by (simp add: newStar_def calculateTidalRadius_def Let_def)
  from a health_updates[of s dts] b c d e f show ?thesis by blast
qed

theorem star_integrity_and_disruption_witness:
  "length3 (star_position strainedStar) < tidalRadius strainedStar
   \<and> \<not> isDisrupted strainedStar
   \<and> health strainedStar = 0.3
   \<and> health (update strainedStar 0.016) = 0.295
   \<and> health (update strainedStar 0.016) \<le> health strainedStar
   \<and> isDisrupted (update strainedStar 0.016)
   \<and> isDisrupted (updates strainedStar [0.016, 0.016])
   \<and> tidalRadius strainedStar = 80"
proof -
  have tr: "tidalRadius strainedStar = 80"
    using tidalRadius_newStar by (simp add: strainedStar_def)
  have len: "length3 (star_position strainedStar) = 40"
    by (simp add: strainedStar_def length3_def sqrt1600)
  have nd: "\<not> isDisrupted strainedStar" and h0: "health strainedStar = 0.3"
    and hm: "hasMesh strainedStar"
    by (simp_all add: strainedStar_def newStar_def Let_def)
  have h1: "health (update strainedStar 0.016) = 0.295"
    by (simp add: update_def updateWith_def Let_def tr len nd h0 hm)
  have inv: "health strainedStar < 0.3 \<longrightarrow> isDisrupted strainedStar"
    by (simp add: h0)
  note t = star_integrity_and_disruption[of strainedStar "0.016" "[0.016]" 0]
  from t have le: "health (update strainedStar 0.016) \<le> health strainedStar" by blast
  from t inv have "health (update strainedStar 0.016) < 0.3 \<longrightarrow>
      isDisrupted (update strainedStar 0.016)" by blast
  with h1 have dis: "isDisrupted (update strainedStar 0.016)" by simp
  from star_integrity_and_disruption[of "update strainedStar 0.016" "0.016" "[0.016]" 0] dis
  have "isDisrupted (updates (update strainedStar 0.016) [0.016])" by blast
  then have dis2: "isDisrupted (updates strainedStar [0.016, 0.016])" by simp
  from tr len nd h0 h1 le dis dis2 show ?thesis by simp
qed

section \<open>The debris queue at its cap\<close>

lemma generateLoop_full:
  "maxParticles sd \<le> particleCount sd \<Longrightarrow> generateLoop n st rnd k sd = (sd, k)"
  by (cases n) simp_all

lemma generateLoop_appends:
  "\<exists>new. particles (fst (generateLoop n st rnd k sd)) = particles sd @ new
     \<and> length new = min n (nat (maxParticles sd - particleCount sd))
     \<and> particleCount (fst (generateLoop n st rnd k sd)) = particleCount sd + int (length new)
     \<and> maxParticles (fst (generateLoop n st rnd k sd)) = maxParticles sd"
proof (induction n arbitrary: k sd)
  case 0
  show ?case by simp
next
  case (Suc n)
  show ?case
  proof (cases "maxParticles sd \<le> particleCount sd")
    case True
    then show ?thesis by simp
  next
    case False
    let ?sd1 = "sd\<lparr>particles := particles sd @ [makeDebris st rnd k],
                     particleCount := particleCount sd + 1\<rparr>"
    from Suc.IH[of "k + 8" ?sd1] obtain new where
      n: "particles (fst (generateLoop n st rnd (k + 8) ?sd1)) = particles ?sd1 @ new"
        "length new = min n (nat (maxParticles ?sd1 - particleCount ?sd1))"
        "particleCount (fst (generateLoop n st rnd (k + 8) ?sd1)) = particleCount ?sd1 + int (length new)"
        "maxParticles (fst (generateLoop n st rnd (k + 8) ?sd1)) = maxParticles ?sd1"
      by blast
    have "particles (fst (generateLoop (Suc n) st rnd k sd))
            = particles sd @ (makeDebris st rnd k # new)"
      using False n(1) by simp
    moreover have "length (makeDebris st rnd k # new)
            = min (Suc n) (nat (maxParticles sd - particleCount sd))"
      using False n(2) by (simp add: min_def) linarith
    moreover have "particleCount (fst (generateLoop (Suc n) st rnd k sd))
            = particleCount sd + int (length (makeDebris st rnd k # new))"
      using False n(3) by simp
    moreover have "maxParticles (fst (generateLoop (Suc n) st rnd k sd)) = maxParticles sd"
      using False n(4) by simp
    ultimately show ?thesis by blast
  qed
qed

text \<open>
  C3, as the claim states it, fails: with the queue at its cap of 5000,
  \<open>generateDebrisFromStar\<close> returns the debris system as it was. No particle is produced
  and the oldest entry is not evicted.
\<close>

theorem debris_cap_counterexample:
  "maxParticles fullDebris = 5000
   \<and> particleCount fullDebris = 5000
   \<and> length (particles fullDebris) = 5000
   \<and> generateDebrisFromStar exampleStarState halfStream 0 fullDebris = (fullDebris, 0)"
proof -
  have a: "maxParticles fullDebris = 5000" "particleCount fullDebris = 5000"
    "length (particles fullDebris) = 5000"
    by (simp_all add: fullDebris_def newStellarDebris_def)
  then have "maxParticles fullDebris \<le> particleCount fullDebris" by simp
  then have "generateDebrisFromStar exampleStarState halfStream 0 fullDebris = (fullDebris, 0)"
    unfolding generateDebrisFromStar_def by (rule generateLoop_full)
  with a show ?thesis by blast
qed

text \<open>
  C3, amended. \<open>generateDebrisFromStar\<close> never evicts. When the counter \<open>particleCount\<close>
  is at or above the cap (\<open>maxParticles\<close>, 5000 in every constructed system) it produces
  nothing and leaves the debris system unchanged. Below the cap it appends
  \<open>min(200, maxParticles - particleCount)\<close> new particles behind the existing ones, which
  all stay in place and in order, and raises the counter by as many; the cap itself is not
  changed. So a counter within the cap stays within it; and when the counter equals the
  queue length on entry, as it does in a freshly constructed system, it equals it on exit,
  and a queue within the cap stays within the cap.
\<close>

theorem generateDebris_stops_at_cap:
  "(maxParticles sd \<le> particleCount sd \<longrightarrow>
      generateDebrisFromStar st rnd k sd = (sd, k))
   \<and> take (length (particles sd)) (particles (fst (generateDebrisFromStar st rnd k sd)))
        = particles sd
   \<and> length (particles (fst (generateDebrisFromStar st rnd k sd)))
        = length (particles sd) + min 200 (nat (maxParticles sd - particleCount sd))
   \<and> particleCount (fst (generateDebrisFromStar st rnd k sd))
        = particleCount sd + int (min 200 (nat (maxParticles sd - particleCount sd)))
   \<and> (particleCount sd \<le> maxParticles sd \<longrightarrow>
        particleCount (fst (generateDebrisFromStar st rnd k sd)) \<le> maxParticles sd)
   \<and> maxParticles (fst (generateDebrisFromStar st rnd k sd)) = maxParticles sd
   \<and> (particleCount sd = int (length (particles sd)) \<longrightarrow>
        particleCount (fst (generateDebrisFromStar st rnd k sd))
          = int (length (particles (fst (generateDebrisFromStar st rnd k sd))))
        \<and> (int (length (particles sd)) \<le> maxParticles sd \<longrightarrow>
             int (length (particles (fst (generateDebrisFromStar st rnd k sd))))
               \<le> maxParticles sd))
   \<and> maxParticles (newStellarDebris bh) = 5000
   \<and> particleCount (newStellarDebris bh) = int (length (particles (newStellarDebris bh)))"
proof -
  obtain new where
    n: "particles (fst (generateLoop 200 st rnd k sd)) = particles sd @ new"
       "length new = min 200 (nat (maxParticles sd - particleCount sd))"
       "particleCount (fst (generateLoop 200 st rnd k sd)) = particleCount sd + int (length new)"
       "maxParticles (fst (generateLoop 200 st rnd k sd)) = maxParticles sd"
    using generateLoop_appends[of 200 st rnd k sd] by blast
  have a: "maxParticles sd \<le> particleCount sd \<longrightarrow>
      generateDebrisFromStar st rnd k sd = (sd, k)"
    by (simp add: generateDebrisFromStar_def generateLoop_full)
  have b: "take (length (particles sd)) (particles (fst (generateDebrisFromStar st rnd k sd)))
        = particles sd"
    by (simp add: generateDebrisFromStar_def n(1))
  have c: "length (particles (fst (generateDebrisFromStar st rnd k sd)))
        = length (particles sd) + min 200 (nat (maxParticles sd - particleCount sd))"
    by (simp add: generateDebrisFromStar_def n(1) n(2))
  have d: "particleCount (fst (generateDebrisFromStar st rnd k sd))
        = particleCount sd + int (min 200 (nat (maxParticles sd - particleCount sd)))"
    by (simp add: generateDebrisFromStar_def n(3) n(2))
  have e: "particleCount sd \<le> maxParticles sd \<longrightarrow>
        particleCount (fst (generateDebrisFromStar st rnd k sd)) \<le> maxParticles sd"
    unfolding d by auto
  have f: "maxParticles (fst (generateDebrisFromStar st rnd k sd)) = maxParticles sd"
    by (simp add: generateDebrisFromStar_def n(4))
  have g: "particleCount (fst (generateDebrisFromStar st rnd k sd))
          = int (length (particles (fst (generateDebrisFromStar st rnd k sd))))
        \<and> (int (length (particles sd)) \<le> maxParticles sd \<longrightarrow>
             int (length (particles (fst (generateDebrisFromStar st rnd k sd))))
               \<le> maxParticles sd)"
    if "particleCount sd = int (length (particles sd))"
    using that e unfolding c d by auto
  have h: "maxParticles (newStellarDebris bh) = 5000"
    "particleCount (newStellarDebris bh) = int (length (particles (newStellarDebris bh)))"
    by (simp_all add: newStellarDebris_def)
  from a b c d e f g h show ?thesis by blast
qed

theorem generateDebris_stops_at_cap_witness:
  "maxParticles fullDebris \<le> particleCount fullDebris
   \<and> generateDebrisFromStar exampleStarState halfStream 0 fullDebris = (fullDebris, 0)
   \<and> particleCount (newStellarDebris 66000000000) \<le> maxParticles (newStellarDebris 66000000000)
   \<and> length (particles (fst (generateDebrisFromStar exampleStarState halfStream 0
        (newStellarDebris 66000000000)))) = 200
   \<and> particleCount (fst (generateDebrisFromStar exampleStarState halfStream 0
        (newStellarDebris 66000000000))) \<le> 5000
   \<and> particleCount (newStellarDebris 66000000000)
       = int (length (particles (newStellarDebris 66000000000)))
   \<and> particleCount (fst (generateDebrisFromStar exampleStarState halfStream 0
        (newStellarDebris 66000000000))) = 200
   \<and> int (length (particles (fst (generateDebrisFromStar exampleStarState halfStream 0
        (newStellarDebris 66000000000))))) \<le> 5000"
proof -
  have h: "maxParticles fullDebris \<le> particleCount fullDebris"
    by (simp add: fullDebris_def newStellarDebris_def)
  with generateDebris_stops_at_cap[of fullDebris exampleStarState halfStream 0 66000000000]
  have a: "generateDebrisFromStar exampleStarState halfStream 0 fullDebris = (fullDebris, 0)"
    by blast
  have f: "particleCount (newStellarDebris 66000000000) = 0"
    "maxParticles (newStellarDebris 66000000000) = 5000"
    "particles (newStellarDebris 66000000000) = []"
    by (simp_all add: newStellarDebris_def)
  have g: "particleCount (newStellarDebris 66000000000) \<le> maxParticles (newStellarDebris 66000000000)"
    by (simp add: f)
  note t = generateDebris_stops_at_cap[of "newStellarDebris 66000000000" exampleStarState
      halfStream 0 66000000000]
  from t have "length (particles (fst (generateDebrisFromStar exampleStarState halfStream 0
        (newStellarDebris 66000000000))))
      = length (particles (newStellarDebris 66000000000))
        + min 200 (nat (maxParticles (newStellarDebris 66000000000)
                        - particleCount (newStellarDebris 66000000000)))"
    by blast
  then have b: "length (particles (fst (generateDebrisFromStar exampleStarState halfStream 0
        (newStellarDebris 66000000000)))) = 200"
    by (simp add: f)
  from t g have "particleCount (fst (generateDebrisFromStar exampleStarState halfStream 0
        (newStellarDebris 66000000000))) \<le> maxParticles (newStellarDebris 66000000000)"
    by blast
  then have c: "particleCount (fst (generateDebrisFromStar exampleStarState halfStream 0
        (newStellarDebris 66000000000))) \<le> 5000"
    by (simp add: f)
  have i: "particleCount (newStellarDebris 66000000000)
       = int (length (particles (newStellarDebris 66000000000)))"
    by (simp add: f)
  have j: "int (length (particles (newStellarDebris 66000000000)))
       \<le> maxParticles (newStellarDebris 66000000000)"
    by (simp add: f)
  from t i have "particleCount (fst (generateDebrisFromStar exampleStarState halfStream 0
        (newStellarDebris 66000000000)))
      = int (length (particles (fst (generateDebrisFromStar exampleStarState halfStream 0
        (newStellarDebris 66000000000)))))"
    by blast
  then have d: "particleCount (fst (generateDebrisFromStar exampleStarState halfStream 0
        (newStellarDebris 66000000000))) = 200"
    by (simp add: b)
  from t i j have "int (length (particles (fst (generateDebrisFromStar exampleStarState
        halfStream 0 (newStellarDebris 66000000000)))))
      \<le> maxParticles (newStellarDebris 66000000000)"
    by blast
  then have e: "int (length (particles (fst (generateDebrisFromStar exampleStarState halfStream 0
        (newStellarDebris 66000000000))))) \<le> 5000"
    by (simp add: f)
  from h a g b c i d e show ?thesis by blast
qed

section \<open>One tick of a debris particle\<close>

lemma circularizationBlock_fields:
  "d_position (circularizationBlock sd d p) =
     (if inStream p \<and> \<not> circularized p then normalize (d_position p) else d_position p)"
  "angularMomentum (circularizationBlock sd d p) = angularMomentum p"
  "circularized (circularizationBlock sd d p) =
     (circularized p \<or> (inStream p \<and>
        \<bar>dot (d_velocity p) (normalize (d_position p))\<bar> < 0.1 \<and> d > ISCO sd * 1.5))"
  "inStream (circularizationBlock sd d p) =
     (inStream p \<and> (circularized p \<or>
        \<not> (\<bar>dot (d_velocity p) (normalize (d_position p))\<bar> < 0.1 \<and> d > ISCO sd * 1.5)))"
  by (auto simp: circularizationBlock_def Let_def)

lemma circularizationBlock_velocity:
  "inStream p \<Longrightarrow> \<not> circularized p \<Longrightarrow>
   \<bar>dot (d_velocity p) (normalize (d_position p))\<bar> < 0.1 \<Longrightarrow> d > ISCO sd * 1.5 \<Longrightarrow>
   d_velocity (circularizationBlock sd d p) =
     multiplyScalar (normalize (cross (angularMomentum p) (normalize (d_position p))))
       (sd_calculateOrbitalVelocity sd d)"
  by (simp add: circularizationBlock_def Let_def)

lemma viscousBlock_fields:
  "d_position (viscousBlock sd p) = d_position p"
  "circularized (viscousBlock sd p) = circularized p"
  "inStream (viscousBlock sd p) = inStream p"
  by (simp_all add: viscousBlock_def Let_def)

lemma viscousBlock_velocity:
  "circularized p \<Longrightarrow>
   d_velocity (viscousBlock sd p) =
     multiplyScalar
       (normalize (cross (multiplyScalar (angularMomentum p) (1 - 0.0001)) (d_position p)))
       (sd_calculateOrbitalVelocity sd (length3 (d_position p)))"
  by (simp add: viscousBlock_def Let_def)

lemma integrateBlock_fields:
  "circularized (integrateBlock sd d g dt p) = circularized p"
  "inStream (integrateBlock sd d g dt p) = inStream p"
  "d_velocity (integrateBlock sd d g dt p) = add (d_velocity p) (multiplyScalar g dt)"
  "d_position (integrateBlock sd d g dt p) =
     add (d_position p) (multiplyScalar (d_velocity (integrateBlock sd d g dt p)) dt)"
  by (simp_all add: integrateBlock_def Let_def)

lemma updateParticle_None:
  "updateParticle sd dt p = None \<longleftrightarrow>
     age p + 1 > maxAge p \<or> length3 (d_position p) < eventHorizon sd"
  by (simp add: updateParticle_def Let_def)

lemma updateParticle_Some:
  assumes "updateParticle sd dt p = Some p'"
  shows "p' = integrateBlock sd (length3 (d_position p))
                (multiplyScalar (multiplyScalar (normalize (d_position p)) (- 1))
                   ((0.1 * sd_blackHoleMass sd) / (length3 (d_position p) * length3 (d_position p))))
                dt
                (viscousBlock sd
                   (circularizationBlock sd (length3 (d_position p)) (p\<lparr>age := age p + 1\<rparr>)))"
    and "eventHorizon sd \<le> length3 (d_position p)"
  using assms by (simp_all add: updateParticle_def Let_def split: if_splits)

lemma subVectors_add: "subVectors (add a b) b = a"
  by (cases a) (simp add: subVectors_def add_def)

text \<open>
  C9. A particle that enters a tick in the stream (\<open>inStream\<close>, not \<open>circularized\<close>) and is
  not removed by the age test or the event-horizon test has its stored position replaced
  by the normalized position before the integration step reads it. So the position after
  the tick is the unit vector of the position before the tick plus \<open>deltaTime\<close> times the
  velocity the tick has just computed, and its offset from that displacement has length
  1 whatever the distance before the tick was.
\<close>

theorem stream_particle_position_normalized:
  assumes "inStream p" and "\<not> circularized p" and "updateParticle sd dt p = Some p'"
  shows "d_position (viscousBlock sd
            (circularizationBlock sd (length3 (d_position p)) (p\<lparr>age := age p + 1\<rparr>)))
           = normalize (d_position p)
         \<and> d_position p' = add (normalize (d_position p)) (multiplyScalar (d_velocity p') dt)
         \<and> (0 < eventHorizon sd \<longrightarrow>
              length3 (subVectors (d_position p') (multiplyScalar (d_velocity p') dt)) = 1)"
proof -
  let ?q = "viscousBlock sd
              (circularizationBlock sd (length3 (d_position p)) (p\<lparr>age := age p + 1\<rparr>))"
  have q: "d_position ?q = normalize (d_position p)"
    using assms(1,2) by (simp add: viscousBlock_fields circularizationBlock_fields)
  have pos: "d_position p' = add (normalize (d_position p)) (multiplyScalar (d_velocity p') dt)"
    unfolding updateParticle_Some(1)[OF assms(3)]
    by (subst integrateBlock_fields(4)) (simp add: q)
  have "length3 (subVectors (d_position p') (multiplyScalar (d_velocity p') dt)) = 1"
    if "0 < eventHorizon sd"
  proof -
    have "length3 (d_position p) \<noteq> 0"
      using updateParticle_Some(2)[OF assms(3)] that by simp
    then show ?thesis
      unfolding pos subVectors_add by (rule length3_normalize)
  qed
  with q pos show ?thesis by blast
qed

lemma length3_axis_x: "length3 (Vector3 a 0 0) = \<bar>a\<bar>"
  by (simp add: length3_def)

lemma length3_axis_z: "length3 (Vector3 0 0 a) = \<bar>a\<bar>"
  by (simp add: length3_def)

lemma normalize_axis_x: "0 < a \<Longrightarrow> normalize (Vector3 a 0 0) = Vector3 1 0 0"
  by (simp add: normalize_def length3_axis_x multiplyScalar_def)

lemma normalize_axis_z: "0 < a \<Longrightarrow> normalize (Vector3 0 0 a) = Vector3 0 0 1"
  by (simp add: normalize_def length3_axis_z multiplyScalar_def)

lemma streamParticle_fields:
  "inStream streamParticle" "\<not> circularized streamParticle"
  "d_position streamParticle = Vector3 72 0 0" "d_velocity streamParticle = Vector3 0 0 1"
  "angularMomentum streamParticle = Vector3 0 (- 72) 0"
  "age streamParticle = 0" "maxAge streamParticle = 1000"
  by (simp_all add: streamParticle_def cross_def)

lemma defaultDebris_fields:
  "sd_blackHoleMass defaultDebris = 66000000000" "ISCO defaultDebris = 18"
  "eventHorizon defaultDebris = 13"
  by (simp_all add: defaultDebris_def newStellarDebris_def)

lemma streamParticle_survives: "updateParticle defaultDebris dt streamParticle \<noteq> None"
  by (simp add: updateParticle_None streamParticle_fields defaultDebris_fields length3_axis_x)

theorem stream_particle_position_normalized_witness:
  "inStream streamParticle \<and> \<not> circularized streamParticle
   \<and> updateParticle defaultDebris 0.016 streamParticle \<noteq> None
   \<and> d_position (the (updateParticle defaultDebris 0.016 streamParticle))
       = add (Vector3 1 0 0)
           (multiplyScalar (d_velocity (the (updateParticle defaultDebris 0.016 streamParticle))) 0.016)
   \<and> length3 (subVectors (d_position (the (updateParticle defaultDebris 0.016 streamParticle)))
        (multiplyScalar (d_velocity (the (updateParticle defaultDebris 0.016 streamParticle))) 0.016))
       = 1"
proof -
  obtain p' where s: "updateParticle defaultDebris 0.016 streamParticle = Some p'"
    using streamParticle_survives[of "0.016"] by blast
  have eh: "0 < eventHorizon defaultDebris" by (simp add: defaultDebris_fields)
  have n: "normalize (d_position streamParticle) = Vector3 1 0 0"
    by (simp add: streamParticle_fields normalize_axis_x)
  from stream_particle_position_normalized[OF streamParticle_fields(1,2) s] eh
  have "d_position p' = add (normalize (d_position streamParticle))
                          (multiplyScalar (d_velocity p') 0.016)"
    and "length3 (subVectors (d_position p') (multiplyScalar (d_velocity p') 0.016)) = 1"
    by blast+
  then show ?thesis
    unfolding n using s streamParticle_fields(1,2) by simp
qed

section \<open>Circularization of debris\<close>

text \<open>
  For a particle that enters a tick in the stream and is not removed, the tick moves it to
  the circularized state exactly when the absolute radial velocity is below 0.1 and the
  distance exceeds 1.5 times the ISCO radius; otherwise it stays in the stream.
\<close>

lemma transition_iff:
  assumes "inStream p" and "\<not> circularized p" and "updateParticle sd dt p = Some p'"
  shows "(circularized p' \<and> \<not> inStream p') \<longleftrightarrow>
           (\<bar>dot (d_velocity p) (normalize (d_position p))\<bar> < 0.1
            \<and> length3 (d_position p) > ISCO sd * 1.5)"
    and "(inStream p' \<and> \<not> circularized p') \<longleftrightarrow>
           \<not> (\<bar>dot (d_velocity p) (normalize (d_position p))\<bar> < 0.1
            \<and> length3 (d_position p) > ISCO sd * 1.5)"
  unfolding updateParticle_Some(1)[OF assms(3)]
  using assms(1,2)
  by (auto simp: integrateBlock_fields viscousBlock_fields circularizationBlock_fields)

text \<open>No tick puts a particle back into the stream or takes the circularized flag away.\<close>

lemma one_way_tick:
  assumes "updateParticle sd dt p = Some p'"
  shows "(\<not> inStream p \<longrightarrow> \<not> inStream p') \<and> (circularized p \<longrightarrow> circularized p')"
  unfolding updateParticle_Some(1)[OF assms]
  by (simp add: integrateBlock_fields viscousBlock_fields circularizationBlock_fields)

lemma one_way_ticks:
  "particleTicks sd dts p = Some p' \<Longrightarrow>
     (\<not> inStream p \<longrightarrow> \<not> inStream p') \<and> (circularized p \<longrightarrow> circularized p')"
proof (induction dts arbitrary: p)
  case Nil
  then show ?case by simp
next
  case (Cons dt dts)
  from Cons.prems obtain q where q: "updateParticle sd dt p = Some q"
    and r: "particleTicks sd dts q = Some p'"
    by (auto split: option.splits)
  from one_way_tick[OF q] Cons.IH[OF r] show ?case by blast
qed

text \<open>
  The velocity the transition branch assigns is the circular-orbit speed at the distance
  read at the start of the tick, along the tangent \<open>L \<times> position\<close>.
\<close>

lemma transition_branch_velocity:
  assumes "inStream p" and "\<not> circularized p"
    and "\<bar>dot (d_velocity p) (normalize (d_position p))\<bar> < 0.1"
    and "d > ISCO sd * 1.5" and "0 \<le> ISCO sd"
  shows "d_velocity (circularizationBlock sd d p) =
     multiplyScalar (normalize (cross (angularMomentum p) (normalize (d_position p))))
       (sqrt ((0.1 * sd_blackHoleMass sd) / d))"
proof -
  have "\<not> d < ISCO sd" using assms(4,5) by simp
  then show ?thesis
    using circularizationBlock_velocity[OF assms(1-4)]
    by (simp add: sd_calculateOrbitalVelocity_def)
qed

text \<open>
  The velocity at the end of the tick of the transition. The viscous block runs in the
  same tick and reads the radius from the position that the test has normalized, so it
  reads 1, which \<open>calculateOrbitalVelocity\<close> raises to the ISCO radius.
\<close>

lemma transition_tick_velocity:
  assumes "inStream p" and "\<not> circularized p"
    and "\<bar>dot (d_velocity p) (normalize (d_position p))\<bar> < 0.1"
    and "length3 (d_position p) > ISCO sd * 1.5"
    and "updateParticle sd dt p = Some p'"
    and "0 < eventHorizon sd" and "1 \<le> ISCO sd"
  shows "d_velocity p' =
     add (multiplyScalar
            (normalize (cross (multiplyScalar (angularMomentum p) (1 - 0.0001))
                              (normalize (d_position p))))
            (sqrt ((0.1 * sd_blackHoleMass sd) / ISCO sd)))
         (multiplyScalar
            (multiplyScalar (multiplyScalar (normalize (d_position p)) (- 1))
               ((0.1 * sd_blackHoleMass sd) / (length3 (d_position p) * length3 (d_position p))))
            dt)"
proof -
  let ?p1 = "p\<lparr>age := age p + 1\<rparr>"
  let ?q = "circularizationBlock sd (length3 (d_position p)) ?p1"
  have cq: "circularized ?q"
    using assms(1-4) by (simp add: circularizationBlock_fields)
  have pq: "d_position ?q = normalize (d_position p)"
    using assms(1,2) by (simp add: circularizationBlock_fields)
  have lq: "angularMomentum ?q = angularMomentum p"
    by (simp add: circularizationBlock_fields)
  have "length3 (d_position p) \<noteq> 0"
    using updateParticle_Some(2)[OF assms(5)] assms(6) by simp
  then have one: "length3 (normalize (d_position p)) = 1" by (rule length3_normalize)
  have sp: "sd_calculateOrbitalVelocity sd 1 = sqrt ((0.1 * sd_blackHoleMass sd) / ISCO sd)"
    using assms(7) by (auto simp: sd_calculateOrbitalVelocity_def)
  have "d_velocity (viscousBlock sd ?q) =
     multiplyScalar
       (normalize (cross (multiplyScalar (angularMomentum p) (1 - 0.0001))
                         (normalize (d_position p))))
       (sqrt ((0.1 * sd_blackHoleMass sd) / ISCO sd))"
    unfolding viscousBlock_velocity[OF cq] pq lq one sp by (rule refl)
  then show ?thesis
    unfolding updateParticle_Some(1)[OF assms(5)]
    by (simp only: integrateBlock_fields(3))
qed

text \<open>
  C4 on a concrete particle: in the stream, at distance 72 from the centre (beyond
  1.5 times the ISCO radius 18), moving tangentially with radial velocity 0, in the debris
  system the constructor builds. The tick circularizes it, and the tangential speed it
  is left with is the circular-orbit speed at the ISCO radius, twice the circular-orbit
  speed at its own radius 72.
\<close>

theorem circularization_tick_speed:
  "map_option circularized (updateParticle defaultDebris 0.016 streamParticle) = Some True
   \<and> map_option inStream (updateParticle defaultDebris 0.016 streamParticle) = Some False
   \<and> map_option (\<lambda>p'. vz (d_velocity p')) (updateParticle defaultDebris 0.016 streamParticle)
       = Some (sqrt (6600000000 / 18))
   \<and> map_option (\<lambda>p'. vy (d_velocity p')) (updateParticle defaultDebris 0.016 streamParticle)
       = Some 0
   \<and> sd_calculateOrbitalVelocity defaultDebris 72 = sqrt (6600000000 / 72)
   \<and> sqrt (6600000000 / 18) = 2 * sqrt (6600000000 / 72)"
proof -
  obtain p' where s: "updateParticle defaultDebris 0.016 streamParticle = Some p'"
    using streamParticle_survives[of "0.016"] by blast
  have n: "normalize (d_position streamParticle) = Vector3 1 0 0"
    by (simp add: streamParticle_fields normalize_axis_x)
  have rv: "\<bar>dot (d_velocity streamParticle) (normalize (d_position streamParticle))\<bar> < 0.1"
    unfolding n by (simp add: streamParticle_fields dot_def)
  have far: "length3 (d_position streamParticle) > ISCO defaultDebris * 1.5"
    by (simp add: streamParticle_fields defaultDebris_fields length3_axis_x)
  have st: "circularized p' \<and> \<not> inStream p'"
    using transition_iff(1)[OF streamParticle_fields(1,2) s] rv far by blast
  have tg: "normalize (cross (multiplyScalar (angularMomentum streamParticle) (1 - 0.0001))
                         (Vector3 1 0 0)) = Vector3 0 0 1"
    by (simp add: streamParticle_fields multiplyScalar_def cross_def normalize_axis_z)
  have v: "d_velocity p' =
     add (multiplyScalar (Vector3 0 0 1)
            (sqrt ((0.1 * sd_blackHoleMass defaultDebris) / ISCO defaultDebris)))
         (multiplyScalar
            (multiplyScalar (multiplyScalar (Vector3 1 0 0) (- 1))
               ((0.1 * sd_blackHoleMass defaultDebris) /
                (length3 (d_position streamParticle) * length3 (d_position streamParticle))))
            0.016)"
    using transition_tick_velocity[OF streamParticle_fields(1,2) rv far s]
    unfolding n tg by (simp add: defaultDebris_fields)
  have vz: "vz (d_velocity p') = sqrt (6600000000 / 18)"
    and vy: "vy (d_velocity p') = 0"
    unfolding v by (simp_all add: add_def multiplyScalar_def defaultDebris_fields)
  have sp: "sd_calculateOrbitalVelocity defaultDebris 72 = sqrt (6600000000 / 72)"
    by (simp add: sd_calculateOrbitalVelocity_def defaultDebris_fields)
  have "sqrt (6600000000 / 18 :: real) = sqrt (4 * (6600000000 / 72))" by simp
  also have "\<dots> = sqrt 4 * sqrt (6600000000 / 72)" by (rule real_sqrt_mult)
  also have "sqrt (4::real) = 2" by (rule real_sqrt_unique) simp_all
  finally have two: "sqrt (6600000000 / 18 :: real) = 2 * sqrt (6600000000 / 72)" .
  from s st vz vy sp two show ?thesis by simp
qed

section \<open>The debris loop and the single particle\<close>

lemma updateParticle_constants:
  assumes "sd_blackHoleMass a = sd_blackHoleMass b" and "ISCO a = ISCO b"
    and "eventHorizon a = eventHorizon b"
  shows "updateParticle a dt = updateParticle b dt"
proof -
  have o: "sd_calculateOrbitalVelocity a = sd_calculateOrbitalVelocity b"
    by (rule ext) (simp add: sd_calculateOrbitalVelocity_def assms Let_def)
  have c: "circularizationBlock a = circularizationBlock b"
    by (intro ext) (simp add: circularizationBlock_def assms o Let_def)
  have v: "viscousBlock a = viscousBlock b"
    by (intro ext) (simp add: viscousBlock_def o Let_def)
  have i: "integrateBlock a = integrateBlock b"
    by (intro ext) (simp add: integrateBlock_def assms Let_def)
  show ?thesis
    by (rule ext) (simp add: updateParticle_def assms c v i Let_def)
qed

lemma updateParticle_same_constants:
  "updateParticle (sd\<lparr>particles := ps\<rparr>) dt = updateParticle sd dt"
  "updateParticle (sd\<lparr>particles := ps, particleCount := c\<rparr>) dt = updateParticle sd dt"
  by (rule updateParticle_constants; simp)+

lemma map_filter_snoc:
  "List.map_filter f (xs @ [x]) =
     List.map_filter f xs @ (case f x of None \<Rightarrow> [] | Some y \<Rightarrow> [y])"
  by (simp add: List.map_filter_def split: option.splits)

text \<open>
  The backward loop with its splices leaves, in order, the updated particles that were
  not removed: the per-particle step applied to every particle of the queue.
\<close>

lemma updateLoop_particles:
  "i \<le> length (particles sd) \<Longrightarrow>
     particles (updateLoop i dt sd) =
       List.map_filter (updateParticle sd dt) (take i (particles sd)) @ drop i (particles sd)"
proof (induction i arbitrary: sd)
  case 0
  show ?case by (simp add: List.map_filter_def)
next
  case (Suc i)
  let ?ps = "particles sd"
  from Suc.prems have lt: "i < length ?ps" by simp
  have tk: "take (Suc i) ?ps = take i ?ps @ [?ps ! i]"
    using lt by (simp add: take_Suc_conv_app_nth)
  show ?case
  proof (cases "updateParticle sd dt (?ps ! i)")
    case None
    let ?sd1 = "sd\<lparr>particles := take i ?ps @ drop (Suc i) ?ps,
                    particleCount := particleCount sd - 1\<rparr>"
    have "i \<le> length (particles ?sd1)" using lt by simp
    from Suc.IH[OF this] have "particles (updateLoop i dt ?sd1) =
        List.map_filter (updateParticle sd dt) (take i ?ps) @ drop (Suc i) ?ps"
      using lt by (simp add: updateParticle_same_constants)
    then show ?thesis
      using None by (simp add: tk map_filter_snoc del: take_Suc_conv_app_nth)
  next
    case (Some p')
    let ?sd1 = "sd\<lparr>particles := ?ps[i := p']\<rparr>"
    have "i \<le> length (particles ?sd1)" using lt by simp
    from Suc.IH[OF this] have "particles (updateLoop i dt ?sd1) =
        List.map_filter (updateParticle sd dt) (take i ?ps) @ p' # drop (Suc i) ?ps"
      using lt by (simp add: updateParticle_same_constants drop_update_cancel
          Cons_nth_drop_Suc[symmetric] upd_conv_take_nth_drop)
    then show ?thesis
      using Some by (simp add: tk map_filter_snoc)
  qed
qed

lemma sd_update_particles:
  "particles (sd_update sd dt) = List.map_filter (updateParticle sd dt) (particles sd)"
  by (simp add: sd_update_def updateLoop_particles)

section \<open>The adaptive time step of the disk\<close>

lemma adaptiveTimestep_bounds:
  "0.001 \<le> adaptiveTimestep a \<and> adaptiveTimestep a \<le> 0.016"
proof -
  have "(0.001::real) \<le> min 0.016 (max x 0.001) \<and> min 0.016 (max x 0.001) \<le> (0.016::real)"
    for x :: real
    by (simp add: min_def max_def)
  then show ?thesis
    by (simp only: adaptiveTimestep_def Let_def split: if_split) simp
qed

lemma adaptiveTimestep_above:
  "a > 0.1 \<Longrightarrow> adaptiveTimestep a = max 0.001 (min 0.016 (0.3 * sqrt (1 / a)))"
  by (simp add: adaptiveTimestep_def Let_def min_def max_def)

lemma adaptiveTimestep_below: "a \<le> 0.1 \<Longrightarrow> adaptiveTimestep a = 0.016"
  by (simp add: adaptiveTimestep_def Let_def)

lemma maxAccelLoop_Max:
  "maxAccelLoop env ps m = Max (insert m (accelMagnitude env ` set ps))"
proof (induction ps arbitrary: m)
  case Nil
  show ?case by simp
next
  case (Cons p ps)
  have "Max (insert m (insert (accelMagnitude env p) (accelMagnitude env ` set ps)))
        = Max (insert (max m (accelMagnitude env p)) (accelMagnitude env ` set ps))"
  proof (cases "set ps = {}")
    case True
    then show ?thesis by (simp add: max.commute)
  next
    case False
    then show ?thesis by (simp add: max.assoc max.left_commute max.commute)
  qed
  then show ?case by (simp add: Cons.IH insert_commute)
qed

lemma sqrt_sq_div: "sqrt (a * a / (b * b)) = \<bar>a / b\<bar>" for a b :: real
proof -
  have "a * a / (b * b) = (a / b)\<^sup>2" by (simp add: power2_eq_square)
  then show ?thesis by (simp only: real_sqrt_abs)
qed

lemma accelMagnitude_hidden:
  "\<not> showCompanionStar (env_params env) \<Longrightarrow>
     accelMagnitude env p = \<bar>baseRadialAccel env p / dp_mass p\<bar>"
  by (simp add: accelMagnitude_def companionForce_def sqrt_sq_div del: abs_divide)

lemma sqrt_1e8: "sqrt (100000000::real) = 10000"
  by (rule real_sqrt_unique) simp_all

lemma sqrt_inv_1e4: "sqrt (1 / 10000 :: real) = 1 / 100"
  by (rule real_sqrt_unique) (simp_all add: power2_eq_square)

text \<open>
  C2. \<open>updateDiskParticles\<close> integrates every particle with the step
  \<open>adaptiveTimestep a_max\<close>, where \<open>a_max\<close> is the largest acceleration magnitude over the
  population (0 for an empty one). That step lies in \<open>[0.001, 0.016]\<close>; above the noise
  floor 0.1 it is \<open>min(0.016, 0.3 * sqrt(1 / a_max))\<close> raised to at least 0.001, and at or
  below the noise floor it is 0.016.
\<close>

theorem adaptive_timestep_clamped:
  "updateDiskParticles env diskData w =
     integrateLoop env (adaptiveTimestep (maxAccelLoop env diskData 0)) diskData
       (w\<lparr>launchesThisFrame := 0\<rparr>)
   \<and> maxAccelLoop env diskData 0 = Max (insert 0 (accelMagnitude env ` set diskData))
   \<and> 0.001 \<le> adaptiveTimestep (maxAccelLoop env diskData 0)
   \<and> adaptiveTimestep (maxAccelLoop env diskData 0) \<le> 0.016
   \<and> (maxAccelLoop env diskData 0 > 0.1 \<longrightarrow>
        adaptiveTimestep (maxAccelLoop env diskData 0) =
          max 0.001 (min 0.016 (0.3 * sqrt (1 / maxAccelLoop env diskData 0))))
   \<and> (maxAccelLoop env diskData 0 \<le> 0.1 \<longrightarrow>
        adaptiveTimestep (maxAccelLoop env diskData 0) = 0.016)"
  using adaptiveTimestep_bounds[of "maxAccelLoop env diskData 0"]
    adaptiveTimestep_above[of "maxAccelLoop env diskData 0"]
    adaptiveTimestep_below[of "maxAccelLoop env diskData 0"]
    maxAccelLoop_Max[of env diskData 0]
  by (simp add: updateDiskParticles_def Let_def)

theorem adaptive_timestep_clamped_witness:
  "maxAccelLoop quietEnv [outerParticle, violentParticle] 0 = 10000
   \<and> maxAccelLoop quietEnv [outerParticle, violentParticle] 0 > 0.1
   \<and> adaptiveTimestep (maxAccelLoop quietEnv [outerParticle, violentParticle] 0) = 0.003
   \<and> maxAccelLoop quietEnv [outerParticle] 0 \<le> 0.1
   \<and> adaptiveTimestep (maxAccelLoop quietEnv [outerParticle] 0) = 0.016"
proof -
  have h: "\<not> showCompanionStar (env_params quietEnv)"
    by (simp add: quietEnv_def defaultParams_def)
  have a1: "accelMagnitude quietEnv outerParticle = 0.000162"
    unfolding accelMagnitude_hidden[OF h]
    by (simp add: baseRadialAccel_def outerParticle_def quietEnv_def defaultParams_def)
  have a2: "accelMagnitude quietEnv violentParticle = 10000"
    unfolding accelMagnitude_hidden[OF h]
    by (simp add: baseRadialAccel_def violentParticle_def outerParticle_def quietEnv_def
        defaultParams_def)
  have m2: "maxAccelLoop quietEnv [outerParticle, violentParticle] 0 = 10000"
    by (simp add: a1 a2)
  have m1: "maxAccelLoop quietEnv [outerParticle] 0 = 0.000162"
    by (simp add: a1)
  have g2: "maxAccelLoop quietEnv [outerParticle, violentParticle] 0 > 0.1"
    unfolding m2 by simp
  have g1: "maxAccelLoop quietEnv [outerParticle] 0 \<le> 0.1"
    unfolding m1 by simp
  from adaptive_timestep_clamped[of quietEnv "[outerParticle, violentParticle]" emptyWorld] g2
  have "adaptiveTimestep (maxAccelLoop quietEnv [outerParticle, violentParticle] 0) =
          max 0.001 (min 0.016 (0.3 * sqrt (1 / maxAccelLoop quietEnv [outerParticle, violentParticle] 0)))"
    by blast
  then have d2: "adaptiveTimestep (maxAccelLoop quietEnv [outerParticle, violentParticle] 0) = 0.003"
    unfolding m2 sqrt_inv_1e4 by simp
  from adaptive_timestep_clamped[of quietEnv "[outerParticle]" emptyWorld] g1
  have d1: "adaptiveTimestep (maxAccelLoop quietEnv [outerParticle] 0) = 0.016"
    by blast
  from m2 g2 d2 g1 d1 show ?thesis by blast
qed

section \<open>The disk population\<close>

lemma integrateMotion_fields:
  "initialRadius (integrateMotion env dt p) = initialRadius p"
  "speed (integrateMotion env dt p) = speed p"
  "dp_mass (integrateMotion env dt p) = dp_mass p"
  "vTangential (integrateMotion env dt p) =
     speed p * diskRotationSpeed (env_params env) * 60
     + (fst (snd (companionForce env p)) * 1.2) / dp_mass p"
  "dp_radius (integrateMotion env dt p) =
     dp_radius p
     + ((vRadial p + ((baseRadialAccel env p + fst (companionForce env p) * 30) / dp_mass p) * dt)
        * 0.95) * dt"
  by (simp_all add: integrateMotion_def Let_def split: prod.splits)

lemma iscoRegion_outside:
  "dp_radius p < iscoRadius env - 3 \<Longrightarrow>
     iscoRegion env d p w =
       (p\<lparr>isInISCO := False, timeInISCO := 0, heatFromViscosity := 0\<rparr>, w)"
  by (simp add: iscoRegion_def Let_def)

lemma iscoRegion_fields:
  "initialRadius (fst (iscoRegion env d p w)) = initialRadius p"
  "speed (fst (iscoRegion env d p w)) = speed p"
  "vTangential (fst (iscoRegion env d p w)) = vTangential p"
  "cursor w \<le> cursor (snd (iscoRegion env d p w))"
  by (simp_all add: iscoRegion_def Let_def)

lemma fallIntoBlackHole_fields:
  "initialRadius (fst (fallIntoBlackHole env p w)) = initialRadius p"
  "speed (fst (fallIntoBlackHole env p w)) = speed p"
  "vTangential (fst (fallIntoBlackHole env p w)) = vTangential p"
  "cursor w \<le> cursor (snd (fallIntoBlackHole env p w))"
  "dp_radius (fst (fallIntoBlackHole env p w)) \<ge> iscoRadius env - 3
     \<or> dp_radius (fst (fallIntoBlackHole env p w)) = initialRadius p"
  by (simp_all add: fallIntoBlackHole_def)

lemma fallIntoBlackHole_below:
  "dp_radius p < iscoRadius env - 3 \<Longrightarrow>
     fallIntoBlackHole env p w =
       (p\<lparr>dp_radius := initialRadius p, dp_angle := env_random env (cursor w) * pi * 2,
          frameDragAccumulated := 0\<rparr>,
        w\<lparr>cursor := cursor w + 1\<rparr>)"
  by (simp add: fallIntoBlackHole_def)

lemma integrateParticle_unfold:
  "integrateParticle env dt p w =
     (let r2 = iscoRegion env (draggedHeight (integrateMotion env dt p))
                 (integrateMotion env dt p) w;
          r3 = fallIntoBlackHole env (fst r2) (snd r2)
      in ((fst r3)\<lparr>verticalPhase := verticalPhase (fst r3) + 0.018\<rparr>, snd r3))"
  by (simp add: integrateParticle_def Let_def split: prod.splits)

lemma integrateParticle_fields:
  "initialRadius (fst (integrateParticle env dt p w)) = initialRadius p"
  "speed (fst (integrateParticle env dt p w)) = speed p"
  "vTangential (fst (integrateParticle env dt p w)) = vTangential (integrateMotion env dt p)"
  "cursor w \<le> cursor (snd (integrateParticle env dt p w))"
  "dp_radius (fst (integrateParticle env dt p w)) \<ge> iscoRadius env - 3
     \<or> dp_radius (fst (integrateParticle env dt p w)) = initialRadius p"
proof -
  let ?r2 = "iscoRegion env (draggedHeight (integrateMotion env dt p)) (integrateMotion env dt p) w"
  show "initialRadius (fst (integrateParticle env dt p w)) = initialRadius p"
    by (simp add: integrateParticle_unfold Let_def fallIntoBlackHole_fields iscoRegion_fields
        integrateMotion_fields)
  show "speed (fst (integrateParticle env dt p w)) = speed p"
    by (simp add: integrateParticle_unfold Let_def fallIntoBlackHole_fields iscoRegion_fields
        integrateMotion_fields)
  show "vTangential (fst (integrateParticle env dt p w)) = vTangential (integrateMotion env dt p)"
    by (simp add: integrateParticle_unfold Let_def fallIntoBlackHole_fields iscoRegion_fields)
  show "cursor w \<le> cursor (snd (integrateParticle env dt p w))"
    using iscoRegion_fields(4)[of w env "draggedHeight (integrateMotion env dt p)"
        "integrateMotion env dt p"]
      fallIntoBlackHole_fields(4)[of "snd ?r2" env "fst ?r2"]
    by (simp add: integrateParticle_unfold Let_def)
  show "dp_radius (fst (integrateParticle env dt p w)) \<ge> iscoRadius env - 3
     \<or> dp_radius (fst (integrateParticle env dt p w)) = initialRadius p"
    using fallIntoBlackHole_fields(5)[of env "fst ?r2" "snd ?r2"]
    by (simp add: integrateParticle_unfold Let_def iscoRegion_fields integrateMotion_fields)
qed

lemma integrateParticle_fallen:
  assumes "dp_radius (integrateMotion env dt p) < iscoRadius env - 3"
  shows "dp_radius (fst (integrateParticle env dt p w)) = initialRadius p"
    and "dp_angle (fst (integrateParticle env dt p w)) = env_random env (cursor w) * pi * 2"
    and "cursor (snd (integrateParticle env dt p w)) = cursor w + 1"
    and "launchedParticles (snd (integrateParticle env dt p w)) = launchedParticles w"
proof -
  let ?p1 = "integrateMotion env dt p"
  note out = assms
  have r2: "iscoRegion env (draggedHeight ?p1) ?p1 w =
       (?p1\<lparr>isInISCO := False, timeInISCO := 0, heatFromViscosity := 0\<rparr>, w)"
    by (rule iscoRegion_outside[OF out])
  have below: "dp_radius (?p1\<lparr>isInISCO := False, timeInISCO := 0, heatFromViscosity := 0\<rparr>)
                 < iscoRadius env - 3"
    using assms by simp
  note r3 = fallIntoBlackHole_below[OF below, of w]
  show "dp_radius (fst (integrateParticle env dt p w)) = initialRadius p"
    by (simp add: integrateParticle_unfold Let_def r2 r3 integrateMotion_fields)
  show "dp_angle (fst (integrateParticle env dt p w)) = env_random env (cursor w) * pi * 2"
    by (simp add: integrateParticle_unfold Let_def r2 r3)
  show "cursor (snd (integrateParticle env dt p w)) = cursor w + 1"
    by (simp add: integrateParticle_unfold Let_def r2 r3)
  show "launchedParticles (snd (integrateParticle env dt p w)) = launchedParticles w"
    by (simp add: integrateParticle_unfold Let_def r2 r3)
qed

lemma integrateLoop_Cons:
  "integrateLoop env dt (p # ps) w =
     (fst (integrateParticle env dt p w)
        # fst (integrateLoop env dt ps (snd (integrateParticle env dt p w))),
      snd (integrateLoop env dt ps (snd (integrateParticle env dt p w))))"
  by (simp add: Let_def split: prod.splits)

lemma length_integrateLoop: "length (fst (integrateLoop env dt ps w)) = length ps"
  by (induction ps arbitrary: w) (simp_all add: integrateLoop_Cons del: integrateLoop.simps(2))

lemma integrateLoop_nth:
  "i < length ps \<Longrightarrow>
     \<exists>w'. cursor w \<le> cursor w'
        \<and> fst (integrateLoop env dt ps w) ! i = fst (integrateParticle env dt (ps ! i) w')"
proof (induction ps arbitrary: w i)
  case Nil
  then show ?case by simp
next
  case (Cons p ps)
  show ?case
  proof (cases i)
    case 0
    then show ?thesis
      by (auto simp: integrateLoop_Cons simp del: integrateLoop.simps(2) intro!: exI[of _ w])
  next
    case (Suc j)
    let ?w1 = "snd (integrateParticle env dt p w)"
    from Suc Cons.prems have "j < length ps" by simp
    from Cons.IH[OF this, of ?w1] obtain w' where
      w': "cursor ?w1 \<le> cursor w'"
          "fst (integrateLoop env dt ps ?w1) ! j = fst (integrateParticle env dt (ps ! j) w')"
      by blast
    have "cursor w \<le> cursor w'"
      using integrateParticle_fields(4)[of w env dt p] w'(1) by simp
    moreover have "fst (integrateLoop env dt (p # ps) w) ! i
                     = fst (integrateParticle env dt ((p # ps) ! i) w')"
      using Suc w'(2) by (simp add: integrateLoop_Cons del: integrateLoop.simps(2))
    ultimately show ?thesis by blast
  qed
qed

text \<open>
  C1. One call of \<open>updateDiskParticles\<close> returns as many disk particles as it was given:
  none is added, none is removed. Every particle keeps its seed radius
  \<open>initialRadius\<close>. A particle whose integrated radius is below \<open>iscoRadius - 3\<close> (it is then
  outside the ISCO band, so it does not launch) ends the same tick at its seed radius and at
  an angle \<open>Math.random() * 2\<pi>\<close>, drawn from the random stream at or after the cursor the
  tick started with; processed on its own, it draws exactly the next number, and launches
  nothing. After the tick every particle is at or above \<open>iscoRadius - 3\<close> or at its seed
  radius.
\<close>

theorem disk_population_constant:
  "length (fst (updateDiskParticles env diskData w)) = length diskData
   \<and> (\<forall>i<length diskData.
        initialRadius (fst (updateDiskParticles env diskData w) ! i) = initialRadius (diskData ! i)
        \<and> (dp_radius (integrateMotion env (adaptiveTimestep (maxAccelLoop env diskData 0))
                        (diskData ! i)) < iscoRadius env - 3 \<longrightarrow>
             dp_radius (fst (updateDiskParticles env diskData w) ! i) = initialRadius (diskData ! i)
             \<and> (\<exists>k\<ge>cursor w. dp_angle (fst (updateDiskParticles env diskData w) ! i)
                                  = env_random env k * pi * 2))
        \<and> (dp_radius (fst (updateDiskParticles env diskData w) ! i) \<ge> iscoRadius env - 3
             \<or> dp_radius (fst (updateDiskParticles env diskData w) ! i)
                 = initialRadius (diskData ! i)))
   \<and> (dp_radius (integrateMotion env dt p) < iscoRadius env - 3 \<longrightarrow>
        dp_radius (fst (integrateParticle env dt p w)) = initialRadius p
        \<and> dp_angle (fst (integrateParticle env dt p w)) = env_random env (cursor w) * pi * 2
        \<and> cursor (snd (integrateParticle env dt p w)) = cursor w + 1
        \<and> launchedParticles (snd (integrateParticle env dt p w)) = launchedParticles w)"
proof -
  let ?dt = "adaptiveTimestep (maxAccelLoop env diskData 0)"
  let ?w0 = "w\<lparr>launchesThisFrame := 0\<rparr>"
  have u: "updateDiskParticles env diskData w = integrateLoop env ?dt diskData ?w0"
    by (simp add: updateDiskParticles_def Let_def)
  have len: "length (fst (updateDiskParticles env diskData w)) = length diskData"
    unfolding u by (rule length_integrateLoop)
  have each: "initialRadius (fst (updateDiskParticles env diskData w) ! i) = initialRadius (diskData ! i)
        \<and> (dp_radius (integrateMotion env ?dt (diskData ! i)) < iscoRadius env - 3 \<longrightarrow>
             dp_radius (fst (updateDiskParticles env diskData w) ! i) = initialRadius (diskData ! i)
             \<and> (\<exists>k\<ge>cursor w. dp_angle (fst (updateDiskParticles env diskData w) ! i)
                                  = env_random env k * pi * 2))
        \<and> (dp_radius (fst (updateDiskParticles env diskData w) ! i) \<ge> iscoRadius env - 3
             \<or> dp_radius (fst (updateDiskParticles env diskData w) ! i)
                 = initialRadius (diskData ! i))"
    if "i < length diskData" for i
  proof -
    from integrateLoop_nth[OF that, of ?w0 env ?dt] obtain w' where
      w': "cursor ?w0 \<le> cursor w'"
          "fst (integrateLoop env ?dt diskData ?w0) ! i
             = fst (integrateParticle env ?dt (diskData ! i) w')"
      by blast
    have c: "cursor w \<le> cursor w'" using w'(1) by simp
    have a: "initialRadius (fst (updateDiskParticles env diskData w) ! i)
               = initialRadius (diskData ! i)"
      unfolding u w'(2) by (rule integrateParticle_fields(1))
    have b: "dp_radius (fst (updateDiskParticles env diskData w) ! i) = initialRadius (diskData ! i)
             \<and> (\<exists>k\<ge>cursor w. dp_angle (fst (updateDiskParticles env diskData w) ! i)
                                  = env_random env k * pi * 2)"
      if "dp_radius (integrateMotion env ?dt (diskData ! i)) < iscoRadius env - 3"
      unfolding u w'(2)
      using integrateParticle_fallen(1,2)[OF that, of w'] c by blast
    have d: "dp_radius (fst (updateDiskParticles env diskData w) ! i) \<ge> iscoRadius env - 3
             \<or> dp_radius (fst (updateDiskParticles env diskData w) ! i)
                 = initialRadius (diskData ! i)"
      unfolding u w'(2) by (rule integrateParticle_fields(5))
    from a b d show ?thesis by blast
  qed
  have single: "dp_radius (integrateMotion env dt p) < iscoRadius env - 3 \<longrightarrow>
        dp_radius (fst (integrateParticle env dt p w)) = initialRadius p
        \<and> dp_angle (fst (integrateParticle env dt p w)) = env_random env (cursor w) * pi * 2
        \<and> cursor (snd (integrateParticle env dt p w)) = cursor w + 1
        \<and> launchedParticles (snd (integrateParticle env dt p w)) = launchedParticles w"
    using integrateParticle_fallen[of env dt p w] by blast
  from len each single show ?thesis by blast
qed

lemma companionForce_hidden:
  "\<not> showCompanionStar (env_params env) \<or> env_companion env = None \<Longrightarrow>
     companionForce env p = (0, 0, 0)"
  by (auto simp: companionForce_def)

lemma quietEnv_fields:
  "\<not> showCompanionStar (env_params quietEnv)" "iscoRadius quietEnv = 25 / 6"
  "spiralStrength (env_params quietEnv) = 1" "env_random quietEnv = halfStream"
  "diskRotationSpeed (env_params quietEnv) = 1"
  by (simp_all add: quietEnv_def defaultParams_def getISCO_def getSchwarzschildRadius_def)

lemma infallenParticle_fields:
  "dp_radius infallenParticle = 1" "initialRadius infallenParticle = 80"
  "vRadial infallenParticle = 0" "dp_mass infallenParticle = 1"
  "infallSpeed infallenParticle = 0.012 * (1 / 80)"
  by (simp_all add: infallenParticle_def outerParticle_def)

theorem disk_population_constant_witness:
  "length (fst (updateDiskParticles quietEnv [infallenParticle, outerParticle] emptyWorld)) = 2
   \<and> (0::nat) < length [infallenParticle, outerParticle]
   \<and> dp_radius (integrateMotion quietEnv
          (adaptiveTimestep (maxAccelLoop quietEnv [infallenParticle, outerParticle] 0))
          ([infallenParticle, outerParticle] ! 0)) < iscoRadius quietEnv - 3
   \<and> dp_radius (fst (updateDiskParticles quietEnv [infallenParticle, outerParticle] emptyWorld) ! 0)
       = 80
   \<and> dp_radius (integrateMotion quietEnv 0.016 infallenParticle) < iscoRadius quietEnv - 3
   \<and> dp_angle (fst (integrateParticle quietEnv 0.016 infallenParticle emptyWorld)) = 0.5 * pi * 2
   \<and> cursor (snd (integrateParticle quietEnv 0.016 infallenParticle emptyWorld)) = 1"
proof -
  let ?ps = "[infallenParticle, outerParticle]"
  have cf: "companionForce quietEnv p = (0, 0, 0)" for p
    by (rule companionForce_hidden) (simp add: quietEnv_fields)
  have r: "dp_radius (integrateMotion quietEnv dt infallenParticle) < iscoRadius quietEnv - 3"
    if "0 \<le> dt" for dt
  proof -
    have "dp_radius (integrateMotion quietEnv dt infallenParticle) = 1 - (1539 / 10000000) * (dt * dt)"
      by (simp add: integrateMotion_fields cf baseRadialAccel_def infallenParticle_fields
          quietEnv_fields)
    moreover have "0 \<le> dt * dt" by simp
    then have "1 - (1539 / 10000000) * (dt * dt) < (25 / 6 - 3 :: real)" by linarith
    ultimately show ?thesis by (simp only: quietEnv_fields)
  qed
  have dt0: "0 \<le> adaptiveTimestep (maxAccelLoop quietEnv ?ps 0)"
    using adaptiveTimestep_bounds[of "maxAccelLoop quietEnv ?ps 0"] by simp
  have h: "dp_radius (integrateMotion quietEnv (adaptiveTimestep (maxAccelLoop quietEnv ?ps 0))
             (?ps ! 0)) < iscoRadius quietEnv - 3"
    using r[OF dt0] by simp
  have i0: "(0::nat) < length ?ps" by simp
  note t = disk_population_constant[of quietEnv ?ps emptyWorld "0.016" infallenParticle]
  from t have len: "length (fst (updateDiskParticles quietEnv ?ps emptyWorld)) = length ?ps"
    by blast
  from t i0 h have "dp_radius (fst (updateDiskParticles quietEnv ?ps emptyWorld) ! 0)
      = initialRadius (?ps ! 0)"
    by blast
  then have r0: "dp_radius (fst (updateDiskParticles quietEnv ?ps emptyWorld) ! 0) = 80"
    by (simp add: infallenParticle_fields)
  have h1: "dp_radius (integrateMotion quietEnv 0.016 infallenParticle) < iscoRadius quietEnv - 3"
    by (rule r) simp
  from t h1 have "dp_angle (fst (integrateParticle quietEnv 0.016 infallenParticle emptyWorld))
        = env_random quietEnv (cursor emptyWorld) * pi * 2"
    and "cursor (snd (integrateParticle quietEnv 0.016 infallenParticle emptyWorld))
        = cursor emptyWorld + 1"
    by blast+
  then have a: "dp_angle (fst (integrateParticle quietEnv 0.016 infallenParticle emptyWorld))
        = 0.5 * pi * 2"
    and c: "cursor (snd (integrateParticle quietEnv 0.016 infallenParticle emptyWorld)) = 1"
    by (simp_all add: quietEnv_fields halfStream_def emptyWorld_def)
  from len i0 h r0 h1 a c show ?thesis by simp
qed

section \<open>The tangential velocity of a disk particle\<close>

lemma sqrt_25_16: "sqrt (25 / 16 :: real) = 5 / 4"
  by (rule real_sqrt_unique) (simp_all add: power2_eq_square)

lemma cos_arctan_34: "cos (arctan (3 / 4 :: real)) = 4 / 5"
proof -
  have "1 + (3 / 4 :: real)\<^sup>2 = 25 / 16" by (simp add: power2_eq_square)
  then show ?thesis by (simp only: cos_arctan sqrt_25_16) simp
qed

lemma sin_arctan_34: "sin (arctan (3 / 4 :: real)) = 3 / 5"
proof -
  have "1 + (3 / 4 :: real)\<^sup>2 = 25 / 16" by (simp add: power2_eq_square)
  then show ?thesis by (simp only: sin_arctan sqrt_25_16) simp
qed

lemma trailingCompanion_fields:
  "position trailingCompanion = Vector3 80 0 (- 60)"
  "enableGravity trailingCompanion" "enableWind trailingCompanion"
  "mass trailingCompanion = 90" "gravitationalStrength trailingCompanion = 1"
  "radius trailingCompanion = 15"
  "influenceRadius trailingCompanion = 100 * ((90 / (66000000000 / 1000000000)) / 3) powr (1 / 3)"
  by (simp_all add: trailingCompanion_def updateOrbitalPosition_def defaultCompanion_def
      cos_arctan_34 sin_arctan_34)

lemma trailing_influence: "60 \<le> influenceRadius trailingCompanion"
proof -
  have a: "(3/5::real) = (27/125) powr (1/3)"
  proof -
    have p: "(3/5::real) powr 3 = 27/125" by (simp add: power3_eq_cube)
    have "((3/5::real) powr 3) powr (1/3) = (3/5) powr (3 * (1/3))" by (rule powr_powr)
    then have "(27/125::real) powr (1/3) = (3/5) powr (3 * (1/3))" by (simp only: p)
    then show ?thesis by simp
  qed
  have "(27/125::real) powr (1/3) \<le> ((90 / (66000000000 / 1000000000)) / 3) powr (1 / 3)"
    by (rule powr_mono2) simp_all
  with a show ?thesis by (simp add: trailingCompanion_fields)
qed

lemma normalize_axis_z_neg: "a < 0 \<Longrightarrow> normalize (Vector3 0 0 a) = Vector3 0 0 (- 1)"
  by (simp add: normalize_def length3_axis_z multiplyScalar_def)

lemma normalize2_axis: "0 < a \<Longrightarrow> normalize2 (a, 0) = (1, 0)"
  by (simp add: normalize2_def Let_def)

lemma trailing_force:
  "getParticleForce trailingCompanion (Vector3 80 0 0) = Vector3 0 0 (- (9 / 360100))"
proof -
  have ts: "subVectors (position trailingCompanion) (Vector3 80 0 0) = Vector3 0 0 (- 60)"
    and fs: "subVectors (Vector3 80 0 0) (position trailingCompanion) = Vector3 0 0 60"
    by (simp_all add: trailingCompanion_fields subVectors_def)
  have g: "calculateGravitationalForce trailingCompanion (Vector3 80 0 0)
             = Vector3 0 0 (- (9 / 360100))"
    unfolding gravity_unfolded ts
    using trailing_influence
    by (simp add: length3_axis_z normalize_axis_z_neg trailingCompanion_fields(2,4,5)
        multiplyScalar_def)
  have w: "calculateWindForce trailingCompanion (Vector3 80 0 0) = Vector3 0 0 0"
    unfolding wind_unfolded fs
    by (simp add: length3_axis_z trailingCompanion_fields(3,6))
  show ?thesis
    by (simp add: getParticleForce_def g w add_def)
qed

lemma trailingEnv_fields:
  "showCompanionStar (env_params trailingEnv)"
  "env_companion trailingEnv = Some trailingCompanion"
  "diskRotationSpeed (env_params trailingEnv) = 1"
  by (simp_all add: trailingEnv_def defaultParams_def)

lemma outerParticle_fields:
  "dp_mass outerParticle = 1" "dp_angle outerParticle = 0" "dp_radius outerParticle = 80"
  "dp_height outerParticle = 0"
  by (simp_all add: outerParticle_def)

lemma trailing_companionForce:
  "companionForce trailingEnv outerParticle = (0, - (9 / 360100), 0)"
proof -
  have "companionForce trailingEnv outerParticle =
      (let force = getParticleForce trailingCompanion (Vector3 80 0 0)
       in if length3 force > 0 then
            (dot2 (vx force, vz force) (normalize2 (80, 0)),
             dot2 (vx force, vz force) (- snd (normalize2 (80, 0)), fst (normalize2 (80, 0))),
             vy force)
          else (0, 0, 0))"
    by (simp add: companionForce_def trailingEnv_fields outerParticle_fields Let_def)
  also have "\<dots> = (0, - (9 / 360100), 0)"
    unfolding trailing_force
    by (simp add: Let_def length3_axis_z normalize2_axis dot2_def)
  finally show ?thesis .
qed

lemma keplerian_power: "0.007 * (98 / r) powr 1.5 = 0.007 * 98 powr 1.5 * r powr (- 1.5)"
  for r :: real
proof -
  have "(98 / r) powr 1.5 = 98 powr 1.5 / r powr 1.5" by (rule powr_divide)
  moreover have "r powr (- 1.5) = 1 / r powr 1.5" by (rule powr_minus_divide)
  ultimately show ?thesis by simp
qed

lemma seedParticle_fields:
  "speed (seedParticle n rnd k) = 0.007 * (98 / (18 + rnd (k + 1) powr 1.5 * 80)) powr 1.5"
  "initialRadius (seedParticle n rnd k) = 18 + rnd (k + 1) powr 1.5 * 80"
  "dp_radius (seedParticle n rnd k) = 18 + rnd (k + 1) powr 1.5 * 80"
  by (simp_all add: seedParticle_def Let_def)

text \<open>
  C6, as the claim states it, fails: with the companion trailing the particle, the tick
  leaves the particle's tangential velocity below its base Keplerian value
  \<open>speed * diskRotationSpeed * 60\<close>.
\<close>

theorem keplerian_floor_counterexample:
  "vTangential (fst (updateDiskParticles trailingEnv [outerParticle] emptyWorld) ! 0)
     < speed outerParticle * diskRotationSpeed (env_params trailingEnv) * 60"
proof -
  have "vTangential (fst (updateDiskParticles trailingEnv [outerParticle] emptyWorld) ! 0)
      = speed outerParticle * diskRotationSpeed (env_params trailingEnv) * 60
        + (fst (snd (companionForce trailingEnv outerParticle)) * 1.2) / dp_mass outerParticle"
    by (simp add: updateDiskParticles_def Let_def integrateLoop_Cons integrateParticle_fields
        integrateMotion_fields del: integrateLoop.simps(2))
  also have "\<dots> < speed outerParticle * diskRotationSpeed (env_params trailingEnv) * 60"
    unfolding trailing_companionForce by (simp add: outerParticle_fields)
  finally show ?thesis .
qed

text \<open>
  C6, amended. The tangential velocity is not floored. Every tick sets it to the base value
  \<open>speed * diskRotationSpeed * 60\<close> plus the companion's tangential acceleration
  \<open>1.2 * F_t / mass\<close>, which may be negative; \<open>speed\<close> is fixed at seeding as
  \<open>0.007 * (98 / r0)^1.5\<close>, proportional to the seed radius \<open>r0\<close> to the power -1.5, and no
  tick changes it. With the companion's influence disabled (hidden or absent) the
  tangential velocity equals the base value on every tick, with no transient.
\<close>

theorem tangential_velocity_not_floored:
  "vTangential (fst (integrateParticle env dt p w)) =
     speed p * diskRotationSpeed (env_params env) * 60
     + (fst (snd (companionForce env p)) * 1.2) / dp_mass p
   \<and> (\<not> showCompanionStar (env_params env) \<or> env_companion env = None \<longrightarrow>
        vTangential (fst (integrateParticle env dt p w)) =
          speed p * diskRotationSpeed (env_params env) * 60)
   \<and> speed (fst (integrateParticle env dt p w)) = speed p
   \<and> (\<forall>i<length diskData.
        vTangential (fst (updateDiskParticles env diskData w) ! i) =
          speed (diskData ! i) * diskRotationSpeed (env_params env) * 60
          + (fst (snd (companionForce env (diskData ! i))) * 1.2) / dp_mass (diskData ! i)
        \<and> speed (fst (updateDiskParticles env diskData w) ! i) = speed (diskData ! i))
   \<and> speed (seedParticle n rnd k) =
        0.007 * 98 powr 1.5 * initialRadius (seedParticle n rnd k) powr (- 1.5)"
proof -
  have a: "vTangential (fst (integrateParticle env dt p w)) =
     speed p * diskRotationSpeed (env_params env) * 60
     + (fst (snd (companionForce env p)) * 1.2) / dp_mass p" for dt p w
    by (simp add: integrateParticle_fields integrateMotion_fields)
  have b: "vTangential (fst (integrateParticle env dt p w)) =
          speed p * diskRotationSpeed (env_params env) * 60"
    if "\<not> showCompanionStar (env_params env) \<or> env_companion env = None"
    unfolding a companionForce_hidden[OF that] by simp
  have c: "speed (fst (integrateParticle env dt p w)) = speed p" for dt p w
    by (rule integrateParticle_fields(2))
  have d: "vTangential (fst (updateDiskParticles env diskData w) ! i) =
          speed (diskData ! i) * diskRotationSpeed (env_params env) * 60
          + (fst (snd (companionForce env (diskData ! i))) * 1.2) / dp_mass (diskData ! i)
        \<and> speed (fst (updateDiskParticles env diskData w) ! i) = speed (diskData ! i)"
    if "i < length diskData" for i
  proof -
    let ?dt = "adaptiveTimestep (maxAccelLoop env diskData 0)"
    from integrateLoop_nth[OF that, of "w\<lparr>launchesThisFrame := 0\<rparr>" env ?dt] obtain w' where
      "fst (integrateLoop env ?dt diskData (w\<lparr>launchesThisFrame := 0\<rparr>)) ! i
             = fst (integrateParticle env ?dt (diskData ! i) w')"
      by blast
    then show ?thesis
      by (simp add: updateDiskParticles_def Let_def a c)
  qed
  have e: "speed (seedParticle n rnd k) =
        0.007 * 98 powr 1.5 * initialRadius (seedParticle n rnd k) powr (- 1.5)"
    unfolding seedParticle_fields by (rule keplerian_power)
  from a b c d e show ?thesis by blast
qed

theorem tangential_velocity_not_floored_witness:
  "\<not> showCompanionStar (env_params quietEnv)
   \<and> vTangential (fst (integrateParticle quietEnv 0.016 outerParticle emptyWorld)) =
       speed outerParticle * 1 * 60
   \<and> (0::nat) < length [outerParticle]
   \<and> vTangential (fst (updateDiskParticles trailingEnv [outerParticle] emptyWorld) ! 0) =
       speed outerParticle * 1 * 60 + (- (9 / 360100) * 1.2) / 1"
proof -
  have h: "\<not> showCompanionStar (env_params quietEnv) \<or> env_companion quietEnv = None"
    by (simp add: quietEnv_fields)
  from tangential_velocity_not_floored[of quietEnv "0.016" outerParticle emptyWorld "[]"] h
  have "vTangential (fst (integrateParticle quietEnv 0.016 outerParticle emptyWorld)) =
          speed outerParticle * diskRotationSpeed (env_params quietEnv) * 60"
    by blast
  then have a: "vTangential (fst (integrateParticle quietEnv 0.016 outerParticle emptyWorld)) =
       speed outerParticle * 1 * 60"
    by (simp add: quietEnv_fields)
  have i0: "(0::nat) < length [outerParticle]" by simp
  from tangential_velocity_not_floored[of trailingEnv "0.016" outerParticle emptyWorld
      "[outerParticle]"] i0
  have "vTangential (fst (updateDiskParticles trailingEnv [outerParticle] emptyWorld) ! 0) =
          speed ([outerParticle] ! 0) * diskRotationSpeed (env_params trailingEnv) * 60
          + (fst (snd (companionForce trailingEnv ([outerParticle] ! 0))) * 1.2)
            / dp_mass ([outerParticle] ! 0)"
    by blast
  then have b: "vTangential (fst (updateDiskParticles trailingEnv [outerParticle] emptyWorld) ! 0) =
       speed outerParticle * 1 * 60 + (- (9 / 360100) * 1.2) / 1"
    by (simp add: trailing_companionForce trailingEnv_fields outerParticle_fields)
  from quietEnv_fields(1) a i0 b show ?thesis by blast
qed

end
